theory Spec2Isabelle
  imports Main "HOL-Library.Sublist" "HOL-Library.Code_Target_Nat"
begin

section \<open>Values, enumerations and errors\<close>

text \<open>
  The configuration of the APM client is a JavaScript object whose fields hold strings,
  booleans, numbers, \<open>null\<close>, string arrays and members of string enums. A field that is
  \<open>undefined\<close> is modelled by \<open>None\<close> of \<open>Value option\<close>.
\<close>

datatype LogLevel = Debug | Info | Warn | Error

datatype URIReportingLevel = FilteredParams | Path | NoneReporting

datatype ConfigSourceName = Env | Node | Derived | Default

datatype Architecture = X86_64 | I686 | ArchUnknown

datatype Platform = LinuxGNU | LinuxMusl | Darwin | PlatformUnknown

datatype Value =
    VStr string
  | VBool bool
  | VNum int
  | VNaN
  | VNull
  | VList "string list"
  | VLogLevel LogLevel
  | VUriReporting URIReportingLevel

datatype ScoutError =
    NotSupported string
  | NoAgentPresent
  | Disconnected string
  | MonitoringDisabled
  | InvalidConfiguration string
  | InstanceNotReady
  | UnknownSocketType
  | TypeError
  | InvalidVersion
  | ConnectionFailed
  | ExternalFailure string

type_synonym LogEntry = "string \<times> LogLevel"

text \<open>
  A computation that may write log lines and may throw: the log lines written so far,
  then the exception (\<open>Inl\<close>) or the returned value (\<open>Inr\<close>).
\<close>

type_synonym 'a Result = "LogEntry list \<times> (ScoutError + 'a)"

text \<open>
  What the modules import from the host and from files of the package that are not among
  the sources under study: \<open>os.arch()\<close>, \<open>os.platform()\<close>, \<open>isNonGlibcLinux\<close> of
  \<open>detect-libc\<close>, \<open>process.env\<close>, \<open>convertCamelCaseToEnvVar\<close> of \<open>./util\<close>,
  \<open>parseLogLevel\<close>, \<open>isLogLevel\<close>, \<open>isIgnoredLogMessage\<close> and the string values of the
  enums of \<open>./enum\<close>, the text \<open>`${err}`\<close>
  of an error object, the two constants of \<open>../constants\<close> on which the spec is
  silent, and the text that the constructor of \<open>CoreAgentVersion\<close> of \<open>../types\<close> keeps
  for the version it is given, if it accepts it.
\<close>

record Host =
  systemArch :: string
  systemPlatform :: string
  isNonGlibcLinux :: bool
  processEnv :: "string \<rightharpoonup> string"
  convertCamelCaseToEnvVar :: "string \<Rightarrow> string"
  parseLogLevel :: "string \<Rightarrow> Value option"
  logLevelValue :: "LogLevel \<Rightarrow> string"
  uriReportingValue :: "URIReportingLevel \<Rightarrow> string"
  isLogLevel :: "string \<Rightarrow> bool"
  isIgnoredLogMessage :: "LogLevel \<Rightarrow> LogLevel \<Rightarrow> bool"
  errorText :: "ScoutError \<Rightarrow> string"
  DEFAULT_CORE_AGENT_VERSION :: string
  DEFAULT_CORE_AGENT_DOWNLOAD_CACHE_DIR :: string
  coreAgentVersionRaw :: "string \<Rightarrow> string option"

subsection \<open>Constants\<close>

text \<open>Modelled from the spec: \<open>Constants.DEFAULT_SOCKET_FILE_NAME\<close> of \<open>../constants\<close>,
  the file name in the spec's \<open>{coreAgentDir}/{coreAgentFullName}/core-agent.sock\<close>.\<close>

definition DEFAULT_SOCKET_FILE_NAME :: string where
  "DEFAULT_SOCKET_FILE_NAME = ''core-agent.sock''"

text \<open>Modelled from the spec: \<open>Constants.DEFAULT_CORE_AGENT_NAME\<close> of \<open>../constants\<close>,
  the prefix in the spec's \<open>scout_apm_core-{coreAgentVersion}-{coreAgentTriple}\<close>.\<close>

definition DEFAULT_CORE_AGENT_NAME :: string where
  "DEFAULT_CORE_AGENT_NAME = ''scout_apm_core''"

text \<open>Modelled from the spec: \<open>Constants.CORE_AGENT_BIN_FILE_NAME\<close>, the last component
  of the spec's binary path \<open><cacheDir>/scout_apm_core-v<version>-<triple>/core-agent\<close>.\<close>

definition CORE_AGENT_BIN_FILE_NAME :: string where
  "CORE_AGENT_BIN_FILE_NAME = ''core-agent''"

text \<open>Modelled from the spec: \<open>Constants.CORE_AGENT_TCP_SOCKET_MIN_VERSION\<close>,
  \<open>CORE_AGENT_TCP_DEFAULT_HOST\<close> and \<open>CORE_AGENT_TCP_DEFAULT_PORT\<close>: the spec's
  \<open>1.3.0\<close> and \<open>tcp://127.0.0.1:6590\<close>.\<close>

definition CORE_AGENT_TCP_SOCKET_MIN_VERSION :: string where
  "CORE_AGENT_TCP_SOCKET_MIN_VERSION = ''1.3.0''"

definition CORE_AGENT_TCP_DEFAULT_HOST :: string where
  "CORE_AGENT_TCP_DEFAULT_HOST = ''127.0.0.1''"

definition CORE_AGENT_TCP_DEFAULT_PORT :: int where
  "CORE_AGENT_TCP_DEFAULT_PORT = 6590"

text \<open>Modelled from the spec: the string values of the enums \<open>Architecture\<close> and
  \<open>Platform\<close> of \<open>./enum\<close>: arch in \<open>{x86_64, i686, unknown}\<close>, platform in
  \<open>{darwin, linux-gnu, linux-musl, unknown}\<close>.\<close>

fun architectureValue :: "Architecture \<Rightarrow> string" where
  "architectureValue X86_64 = ''x86_64''"
| "architectureValue I686 = ''i686''"
| "architectureValue ArchUnknown = ''unknown''"

fun platformValue :: "Platform \<Rightarrow> string" where
  "platformValue LinuxGNU = ''linux-gnu''"
| "platformValue LinuxMusl = ''linux-musl''"
| "platformValue Darwin = ''darwin''"
| "platformValue PlatformUnknown = ''unknown''"

definition Architecture_values :: "string list" where
  "Architecture_values = map architectureValue [X86_64, I686, ArchUnknown]"

definition Platform_values :: "string list" where
  "Platform_values = map platformValue [LinuxGNU, LinuxMusl, Darwin, PlatformUnknown]"

section \<open>JavaScript string primitives\<close>

definition isUpperChar :: "char \<Rightarrow> bool" where
  "isUpperChar c = (65 \<le> (of_char c :: nat) \<and> (of_char c :: nat) \<le> 90)"

definition isDigitChar :: "char \<Rightarrow> bool" where
  "isDigitChar c = (48 \<le> (of_char c :: nat) \<and> (of_char c :: nat) \<le> 57)"

definition isSpaceChar :: "char \<Rightarrow> bool" where
  "isSpaceChar c = ((of_char c :: nat) = 32 \<or> (9 \<le> (of_char c :: nat) \<and> (of_char c :: nat) \<le> 13))"

definition toLowerChar :: "char \<Rightarrow> char" where
  "toLowerChar c = (if isUpperChar c then char_of ((of_char c :: nat) + 32) else c)"

text \<open>\<open>s.toLowerCase()\<close> on ASCII text.\<close>

definition toLowerCase :: "string \<Rightarrow> string" where
  "toLowerCase s = map toLowerChar s"

text \<open>\<open>s.split(c)\<close> for a separator of one character: the empty string splits into
  one empty piece.\<close>

fun split :: "char \<Rightarrow> string \<Rightarrow> string list" where
  "split c [] = [[]]"
| "split c (x # xs) =
     (if x = c then [] # split c xs
      else (case split c xs of
              [] \<Rightarrow> [[x]]
            | w # ws \<Rightarrow> (x # w) # ws))"

text \<open>\<open>pieces.join(sep)\<close>.\<close>

fun join :: "string \<Rightarrow> string list \<Rightarrow> string" where
  "join sep [] = []"
| "join sep [w] = w"
| "join sep (w # v # ws) = w @ sep @ join sep (v # ws)"

text \<open>\<open>s.startsWith(p)\<close>, written as the comparison of the leading characters.\<close>

definition startsWith :: "string \<Rightarrow> string \<Rightarrow> bool" where
  "startsWith s p = (take (length p) s = p)"

text \<open>\<open>s.indexOf(p)\<close>: the least position at which \<open>p\<close> occurs in \<open>s\<close>, or \<open>-1\<close>.\<close>

fun indexOfFrom :: "nat \<Rightarrow> string \<Rightarrow> string \<Rightarrow> int" where
  "indexOfFrom i [] p = (if p = [] then int i else -1)"
| "indexOfFrom i (c # cs) p =
     (if startsWith (c # cs) p then int i else indexOfFrom (Suc i) cs p)"

definition indexOf :: "string \<Rightarrow> string \<Rightarrow> int" where
  "indexOf s p = indexOfFrom 0 s p"

text \<open>The decimal digits of a number, for \<open>String(n)\<close> and \<open>parseInt(v, 10)\<close>.\<close>

definition digitChar :: "nat \<Rightarrow> char" where
  "digitChar d = char_of (48 + d)"

function showNat :: "nat \<Rightarrow> string" where
  "showNat n = (if n < 10 then [digitChar n] else showNat (n div 10) @ [digitChar (n mod 10)])"
  by pat_completeness auto
termination
  by (relation "measure (\<lambda>n. n)") auto

definition showInt :: "int \<Rightarrow> string" where
  "showInt i = (if i < 0 then CHR ''-'' # showNat (nat (- i)) else showNat (nat i))"

definition digitsValue :: "string \<Rightarrow> nat" where
  "digitsValue ds = foldl (\<lambda>acc c. 10 * acc + ((of_char c :: nat) - 48)) 0 ds"

text \<open>
  \<open>parseInt(v, 10)\<close>: leading white space is skipped, one sign is read, then the longest
  run of decimal digits; with no digit the result is \<open>NaN\<close>. The numbers are the
  mathematical integers (the rounding of doubles beyond \<open>2^53\<close> is not modelled).
\<close>

definition parseInt10 :: "string \<Rightarrow> Value" where
  "parseInt10 v =
     (let s = dropWhile isSpaceChar v;
          neg = (s \<noteq> [] \<and> hd s = CHR ''-'');
          r = (if s \<noteq> [] \<and> (hd s = CHR ''-'' \<or> hd s = CHR ''+'') then tl s else s);
          ds = takeWhile isDigitChar r
      in if ds = [] then VNaN
         else VNum (if neg then - int (digitsValue ds) else int (digitsValue ds)))"

section \<open>JavaScript value coercions\<close>

text \<open>The string a runtime value is, when it is one: members of string enums are
  strings at run time.\<close>

fun stringOf :: "Host \<Rightarrow> Value option \<Rightarrow> string option" where
  "stringOf h (Some (VStr s)) = Some s"
| "stringOf h (Some (VLogLevel l)) = Some (logLevelValue h l)"
| "stringOf h (Some (VUriReporting u)) = Some (uriReportingValue h u)"
| "stringOf h _ = None"

text \<open>Truthiness, as tested by \<open>if (v)\<close>, \<open>!v\<close> and \<open>v || w\<close>.\<close>

fun truthy :: "Host \<Rightarrow> Value option \<Rightarrow> bool" where
  "truthy h None = False"
| "truthy h (Some (VStr s)) = (s \<noteq> [])"
| "truthy h (Some (VBool b)) = b"
| "truthy h (Some (VNum n)) = (n \<noteq> 0)"
| "truthy h (Some VNaN) = False"
| "truthy h (Some VNull) = False"
| "truthy h (Some (VList xs)) = True"
| "truthy h (Some (VLogLevel l)) = (logLevelValue h l \<noteq> [])"
| "truthy h (Some (VUriReporting u)) = (uriReportingValue h u \<noteq> [])"

text \<open>The text a value contributes to a template literal \<open>`${v}`\<close>.\<close>

fun toStr :: "Host \<Rightarrow> Value option \<Rightarrow> string" where
  "toStr h None = ''undefined''"
| "toStr h (Some (VStr s)) = s"
| "toStr h (Some (VBool b)) = (if b then ''true'' else ''false'')"
| "toStr h (Some (VNum n)) = showInt n"
| "toStr h (Some VNaN) = ''NaN''"
| "toStr h (Some VNull) = ''null''"
| "toStr h (Some (VList xs)) = join '','' xs"
| "toStr h (Some (VLogLevel l)) = logLevelValue h l"
| "toStr h (Some (VUriReporting u)) = uriReportingValue h u"

section \<open>Platform detection\<close>

definition detectArch :: "Host \<Rightarrow> Architecture" where
  "detectArch h =
     (if systemArch h = ''x64'' then X86_64
      else if systemArch h = ''x32'' then I686
      else ArchUnknown)"

definition detectPlatform :: "Host \<Rightarrow> Platform" where
  "detectPlatform h =
     (if systemPlatform h = ''linux'' then (if isNonGlibcLinux h then LinuxMusl else LinuxGNU)
      else if systemPlatform h = ''darwin'' then Darwin
      else PlatformUnknown)"

definition generateTriple :: "Host \<Rightarrow> string" where
  "generateTriple h = architectureValue (detectArch h) @ ''-'' @ platformValue (detectPlatform h)"

definition isValidTriple :: "Host \<Rightarrow> Value option \<Rightarrow> ScoutError + bool" where
  "isValidTriple h triple =
     (if \<not> truthy h triple then Inr False
      else (case stringOf h triple of
              None \<Rightarrow> Inl TypeError
            | Some s \<Rightarrow>
                (case split CHR ''-'' s of
                   [] \<Rightarrow> Inr False
                 | arch # platformPieces \<Rightarrow>
                     Inr (arch \<in> set Architecture_values
                          \<and> join ''-'' platformPieces \<in> set Platform_values))))"

section \<open>Configuration sources\<close>

text \<open>The table \<open>DEFAULT_SCOUT_CONFIGURATION\<close>, entry by entry; \<open>revisionSHA\<close> is
  \<open>process.env.HEROKU_SLUG_COMMIT || ""\<close>.\<close>

definition DEFAULT_SCOUT_CONFIGURATION :: "Host \<Rightarrow> (string \<times> Value) list" where
  "DEFAULT_SCOUT_CONFIGURATION h =
     [(''key'', VStr ''''),
      (''name'', VStr ''''),
      (''appServer'', VStr ''''),
      (''applicationRoot'', VStr ''''),
      (''coreAgentDir'', VStr ''''),
      (''coreAgentDownload'', VBool True),
      (''coreAgentLaunch'', VBool True),
      (''coreAgentLogLevel'', VLogLevel Info),
      (''coreAgentPermissions'', VNum 700),
      (''coreAgentVersion'', VStr ''v1.2.7''),
      (''disabledInstruments'', VList []),
      (''downloadUrl'',
         VStr ''https://s3-us-west-1.amazonaws.com/scout-public-downloads/apm_core_agent/release''),
      (''framework'', VStr ''''),
      (''frameworkVersion'', VStr ''''),
      (''hostname'', VNull),
      (''monitor'', VBool False),
      (''revisionSHA'',
         VStr (case processEnv h ''HEROKU_SLUG_COMMIT'' of
                 None \<Rightarrow> ''''
               | Some s \<Rightarrow> (if s \<noteq> [] then s else ''''))),
      (''scmSubdirectory'', VStr ''''),
      (''uriReporting'', VUriReporting FilteredParams)]"

text \<open>The table \<open>ENV_TRANSFORMS\<close> of parsers applied to environment variables.\<close>

definition ENV_TRANSFORMS :: "Host \<Rightarrow> (string \<times> (string \<Rightarrow> Value option)) list" where
  "ENV_TRANSFORMS h =
     [(''SCOUT_CORE_AGENT_LOG_LEVEL'', parseLogLevel h),
      (''SCOUT_LOG_LEVEL'', parseLogLevel h),
      (''SCOUT_CORE_AGENT_DOWNLOAD'', \<lambda>v. Some (VBool (toLowerCase v = ''true''))),
      (''SCOUT_CORE_AGENT_LAUNCH'', \<lambda>v. Some (VBool (toLowerCase v = ''true''))),
      (''SCOUT_CORE_AGENT_PERMISSIONS'', \<lambda>v. Some (parseInt10 v)),
      (''SCOUT_DISABLED_INSTRUMENTS'', \<lambda>v. Some (VList (split CHR '','' v))),
      (''SCOUT_IGNORE'', \<lambda>v. Some (VList (split CHR '','' v))),
      (''SCOUT_MONITOR'', \<lambda>v. Some (VBool (toLowerCase v = ''true'')))]"

text \<open>
  The four source objects. The environment source holds its \<open>env\<close> object and the
  derived source whether it was given a \<open>logFn\<close>; the node source object is shared
  between the proxy's field \<open>nodeConfigSource\<close> and its list \<open>sources\<close>, so its
  \<open>config\<close> object is kept once, in the proxy (field \<open>nodeConfig\<close>). The objects are
  maps from property names to values; the members that a JavaScript object inherits from
  \<open>Object.prototype\<close> are not in them.
\<close>

datatype ConfigSource =
    EnvConfigSource "string \<Rightarrow> string option"
  | NodeConfigSource
  | DerivedConfigSource bool
  | DefaultConfigSource

record ScoutConfigurationProxy =
  nodeConfig :: "string \<rightharpoonup> Value"
  sources :: "ConfigSource list"

fun getName :: "ConfigSource \<Rightarrow> ConfigSourceName" where
  "getName (EnvConfigSource env) = Env"
| "getName NodeConfigSource = Node"
| "getName (DerivedConfigSource logFn) = Derived"
| "getName DefaultConfigSource = Default"

definition DefaultConfigSource_getConfigValue :: "Host \<Rightarrow> string \<Rightarrow> Value option" where
  "DefaultConfigSource_getConfigValue h prop = map_of (DEFAULT_SCOUT_CONFIGURATION h) prop"

definition EnvConfigSource_getConfigValue ::
  "Host \<Rightarrow> (string \<rightharpoonup> string) \<Rightarrow> string \<Rightarrow> Value option" where
  "EnvConfigSource_getConfigValue h env prop =
     (let envVar = convertCamelCaseToEnvVar h prop in
      case env envVar of
        None \<Rightarrow> None
      | Some val \<Rightarrow>
          (case map_of (ENV_TRANSFORMS h) envVar of
             Some f \<Rightarrow> f val
           | None \<Rightarrow> Some (VStr val)))"

definition NodeConfigSource_getConfigValue ::
  "ScoutConfigurationProxy \<Rightarrow> string \<Rightarrow> Value option" where
  "NodeConfigSource_getConfigValue p prop = nodeConfig p prop"

text \<open>
  \<open>ScoutConfigurationProxy.get\<close> goes through \<open>this.sources\<close> in order; the derived source calls
  back into \<open>p.get\<close> for the properties it is built from. The recursion ends because
  \<open>socketPath\<close> asks for \<open>coreAgentFullName\<close>, which asks only for properties that
  the derived source does not build from others.
\<close>

definition derivedRank :: "string \<Rightarrow> nat" where
  "derivedRank prop =
     (if prop = ''socketPath'' then 2 else if prop = ''coreAgentFullName'' then 1 else 0)"

function get :: "Host \<Rightarrow> ScoutConfigurationProxy \<Rightarrow> string \<Rightarrow> Value option Result"
  and get_loop ::
    "Host \<Rightarrow> ScoutConfigurationProxy \<Rightarrow> ConfigSource list \<Rightarrow> string \<Rightarrow> Value option Result"
  and getConfigValue ::
    "Host \<Rightarrow> ConfigSource \<Rightarrow> ScoutConfigurationProxy \<Rightarrow> string \<Rightarrow> Value option Result"
  and DerivedConfigSource_getConfigValue ::
    "Host \<Rightarrow> bool \<Rightarrow> ScoutConfigurationProxy \<Rightarrow> string \<Rightarrow> Value option Result"
where
  "get h p prop = get_loop h p (sources p) prop"
| "get_loop h p [] prop = ([], Inr None)"
| "get_loop h p (s # ss) prop =
     (case getConfigValue h s p prop of
        (l, Inl e) \<Rightarrow> (l, Inl e)
      | (l, Inr (Some val)) \<Rightarrow> (l, Inr (Some val))
      | (l, Inr None) \<Rightarrow> (case get_loop h p ss prop of (l', r) \<Rightarrow> (l @ l', r)))"
| "getConfigValue h (EnvConfigSource env) p prop =
     ([], Inr (EnvConfigSource_getConfigValue h env prop))"
| "getConfigValue h NodeConfigSource p prop =
     ([], Inr (NodeConfigSource_getConfigValue p prop))"
| "getConfigValue h (DerivedConfigSource logFn) p prop =
     DerivedConfigSource_getConfigValue h logFn p prop"
| "getConfigValue h DefaultConfigSource p prop =
     ([], Inr (DefaultConfigSource_getConfigValue h prop))"
| "DerivedConfigSource_getConfigValue h logFn p prop =
     (if prop = ''socketPath'' then
        (case get h p ''coreAgentDir'' of
           (l1, Inl e) \<Rightarrow> (l1, Inl e)
         | (l1, Inr coreAgentDir) \<Rightarrow>
             (case get h p ''coreAgentFullName'' of
                (l2, Inl e) \<Rightarrow> (l1 @ l2, Inl e)
              | (l2, Inr coreAgentFullName) \<Rightarrow>
                  (l1 @ l2,
                   Inr (Some (VStr (toStr h coreAgentDir @ ''/'' @ toStr h coreAgentFullName
                                    @ ''/'' @ DEFAULT_SOCKET_FILE_NAME))))))
      else if prop = ''coreAgentFullName'' then
        (case get h p ''coreAgentTriple'' of
           (l1, Inl e) \<Rightarrow> (l1, Inl e)
         | (l1, Inr coreAgentTriple) \<Rightarrow>
             (case isValidTriple h coreAgentTriple of
                Inl e \<Rightarrow> (l1, Inl e)
              | Inr valid \<Rightarrow>
                  (let l2 = (if \<not> valid \<and> logFn
                             then [(''Invalid value for core_agent_triple: [''
                                      @ toStr h coreAgentTriple @ '']'', Warn)]
                             else [])
                   in case get h p ''coreAgentVersion'' of
                        (l3, Inl e) \<Rightarrow> (l1 @ l2 @ l3, Inl e)
                      | (l3, Inr coreAgentVersion) \<Rightarrow>
                          (l1 @ l2 @ l3,
                           Inr (Some (VStr (DEFAULT_CORE_AGENT_NAME @ ''-''
                                            @ toStr h coreAgentVersion @ ''-''
                                            @ toStr h coreAgentTriple)))))))
      else if prop = ''coreAgentTriple'' then ([], Inr (Some (VStr (generateTriple h))))
      else ([], Inr None))"
  by pat_completeness auto
termination
  by (relation "inv_image (less_than <*lex*> less_than)
        (\<lambda>x. case x of
           Inl (Inl (h, p, prop)) \<Rightarrow> (derivedRank prop, length (sources p) + 3)
         | Inl (Inr (h, p, ss, prop)) \<Rightarrow> (derivedRank prop, length ss + 2)
         | Inr (Inl (h, s, p, prop)) \<Rightarrow> (derivedRank prop, 1)
         | Inr (Inr (h, logFn, p, prop)) \<Rightarrow> (derivedRank prop, 0))")
     (auto simp: derivedRank_def)


text \<open>\<open>setConfigValue\<close> of each source: only the node source accepts a write
  (\<open>this.config[prop] = value\<close>, where \<open>value\<close> may be \<open>undefined\<close>).\<close>

fun setConfigValue ::
  "ConfigSource \<Rightarrow> ScoutConfigurationProxy \<Rightarrow> string \<Rightarrow> Value option
     \<Rightarrow> ScoutError + ScoutConfigurationProxy" where
  "setConfigValue (EnvConfigSource env) p prop v =
     Inl (NotSupported ''new configuration values cannot be set on the env source'')"
| "setConfigValue NodeConfigSource p prop v =
     Inr (p\<lparr>nodeConfig := (nodeConfig p)(prop := v)\<rparr>)"
| "setConfigValue (DerivedConfigSource logFn) p prop v =
     Inl (NotSupported ''new configuration values cannot be set on the derived source'')"
| "setConfigValue DefaultConfigSource p prop v =
     Inl (NotSupported ''new configuration values cannot be set on the default source'')"

text \<open>\<open>ScoutConfigurationProxy.set\<close>: the write goes to \<open>this.nodeConfigSource\<close>, then
  \<open>true\<close> is returned.\<close>

definition set_prop ::
  "ScoutConfigurationProxy \<Rightarrow> string \<Rightarrow> Value option
     \<Rightarrow> ScoutError + (bool \<times> ScoutConfigurationProxy)" where
  "set_prop p prop v =
     (case setConfigValue NodeConfigSource p prop v of
        Inl e \<Rightarrow> Inl e
      | Inr p' \<Rightarrow> Inr (True, p'))"

record ScoutConfigurationProxyOptions =
  opt_env :: "(string \<rightharpoonup> string) option"
  opt_logFn :: bool

text \<open>The constructor of \<open>ScoutConfigurationProxy\<close>.\<close>

definition ScoutConfigurationProxy_new ::
  "Host \<Rightarrow> (string \<rightharpoonup> Value) option \<Rightarrow> ScoutConfigurationProxyOptions option
     \<Rightarrow> ScoutConfigurationProxy" where
  "ScoutConfigurationProxy_new h initialNodeConfig opts =
     \<lparr> nodeConfig = (case initialNodeConfig of Some c \<Rightarrow> c | None \<Rightarrow> Map.empty),
       sources =
         [EnvConfigSource
            (case opts of
               None \<Rightarrow> processEnv h
             | Some opt \<Rightarrow> (case opt_env opt of Some e \<Rightarrow> e | None \<Rightarrow> processEnv h)),
          NodeConfigSource,
          DerivedConfigSource (case opts of None \<Rightarrow> False | Some opt \<Rightarrow> opt_logFn opt),
          DefaultConfigSource] \<rparr>"

section \<open>Paths\<close>

text \<open>
  \<open>path.join\<close> and \<open>path.dirname\<close> of Node on a POSIX host (the platforms of the agent
  are Linux and macOS). \<open>path.join\<close> joins its non-empty arguments with \<open>/\<close> and
  normalises the result: empty and \<open>.\<close> components are dropped, a \<open>..\<close> component removes
  the component before it, a leading \<open>/\<close> and a trailing \<open>/\<close> are kept.
\<close>

fun normalizeSegments :: "bool \<Rightarrow> string list \<Rightarrow> string list \<Rightarrow> string list" where
  "normalizeSegments allowAboveRoot [] res = res"
| "normalizeSegments allowAboveRoot (seg # segs) res =
     (if seg = [] \<or> seg = ''.'' then normalizeSegments allowAboveRoot segs res
      else if seg = ''..'' then
        (if res \<noteq> [] \<and> last res \<noteq> ''..''
         then normalizeSegments allowAboveRoot segs (butlast res)
         else if allowAboveRoot then normalizeSegments allowAboveRoot segs (res @ [''..''])
         else normalizeSegments allowAboveRoot segs res)
      else normalizeSegments allowAboveRoot segs (res @ [seg]))"

definition path_normalize :: "string \<Rightarrow> string" where
  "path_normalize path =
     (if path = [] then ''.''
      else (let isAbsolute = (hd path = CHR ''/'');
                trailingSeparator = (last path = CHR ''/'');
                body = join ''/'' (normalizeSegments (\<not> isAbsolute) (split CHR ''/'' path) [])
            in if body = [] then
                 (if isAbsolute then ''/'' else if trailingSeparator then ''./'' else ''.'')
               else (if isAbsolute then ''/'' else [])
                    @ body @ (if trailingSeparator then ''/'' else [])))"

definition path_join :: "string list \<Rightarrow> string" where
  "path_join args =
     (let parts = filter (\<lambda>a. a \<noteq> []) args in
      if parts = [] then ''.'' else path_normalize (join ''/'' parts))"

text \<open>\<open>path.dirname\<close>: the scan from the end of the path for the separator that ends
  the directory part, trailing separators skipped.\<close>

fun dirnameEnd :: "string \<Rightarrow> nat \<Rightarrow> bool \<Rightarrow> nat option" where
  "dirnameEnd path 0 matchedSlash = None"
| "dirnameEnd path (Suc k) matchedSlash =
     (if path ! Suc k = CHR ''/''
      then (if \<not> matchedSlash then Some (Suc k) else dirnameEnd path k matchedSlash)
      else dirnameEnd path k False)"

definition path_dirname :: "string \<Rightarrow> string" where
  "path_dirname path =
     (if path = [] then ''.''
      else (case dirnameEnd path (length path - 1) True of
              None \<Rightarrow> (if hd path = CHR ''/'' then ''/'' else ''.'')
            | Some e \<Rightarrow> (if hd path = CHR ''/'' \<and> e = 1 then ''//'' else take e path)))"

text \<open>Two adjacent separators somewhere in a path, and a path component as
  normalisation leaves it: not empty and free of separators.\<close>

fun adjSlash :: "string \<Rightarrow> bool" where
  "adjSlash (a # b # r) = ((a = CHR ''/'' \<and> b = CHR ''/'') \<or> adjSlash (b # r))"
| "adjSlash [a] = False"
| "adjSlash [] = False"

definition goodSeg :: "string \<Rightarrow> bool" where
  "goodSeg w = (w \<noteq> [] \<and> CHR ''/'' \<notin> set w)"

section \<open>Semantic versions\<close>

text \<open>
  The package \<open>semver\<close>, as far as the engine uses it. A version is written
  \<open>[v]MAJOR.MINOR.PATCH[-prerelease][+build]\<close>. The constructor \<open>new SemVer(version)\<close>
  refuses a text longer than 256 characters, removes surrounding white space, and matches
  the strict pattern: the three numbers are \<open>0\<close> or digits without a leading zero and at
  most \<open>Number.MAX_SAFE_INTEGER\<close>; a prerelease tag is a non-empty list of identifiers
  separated by dots, each a number without a leading zero or letters, digits and hyphens
  with at least one character that is not a digit; build metadata is a non-empty list of
  non-empty identifiers of letters, digits and hyphens. Any other text makes the
  constructor throw a \<open>TypeError\<close>.
\<close>

record SemVer =
  sv_major :: nat
  sv_minor :: nat
  sv_patch :: nat
  sv_prerelease :: "string list"

definition MAX_LENGTH :: nat where
  "MAX_LENGTH = 256"

definition MAX_SAFE_INTEGER :: nat where
  "MAX_SAFE_INTEGER = 9007199254740991"

text \<open>\<open>s.trim()\<close>: white space and the no-break space are removed at both ends.\<close>

definition isTrimChar :: "char \<Rightarrow> bool" where
  "isTrimChar c = (isSpaceChar c \<or> (of_char c :: nat) = 160)"

definition trim :: "string \<Rightarrow> string" where
  "trim s = rev (dropWhile isTrimChar (rev (dropWhile isTrimChar s)))"

definition allDigits :: "string \<Rightarrow> bool" where
  "allDigits s = (s \<noteq> [] \<and> list_all isDigitChar s)"

definition isLetterChar :: "char \<Rightarrow> bool" where
  "isLetterChar c =
     ((65 \<le> (of_char c :: nat) \<and> (of_char c :: nat) \<le> 90)
      \<or> (97 \<le> (of_char c :: nat) \<and> (of_char c :: nat) \<le> 122))"

definition isIdentChar :: "char \<Rightarrow> bool" where
  "isIdentChar c = (isDigitChar c \<or> isLetterChar c \<or> c = CHR ''-'')"

text \<open>\<open>0|[1-9]\d*\<close>, \<open>\d*[a-zA-Z-][a-zA-Z0-9-]*\<close> and \<open>[0-9A-Za-z-]+\<close>.\<close>

definition numericIdentifier :: "string \<Rightarrow> bool" where
  "numericIdentifier s = (allDigits s \<and> (s = ''0'' \<or> hd s \<noteq> CHR ''0''))"

definition nonNumericIdentifier :: "string \<Rightarrow> bool" where
  "nonNumericIdentifier s = (s \<noteq> [] \<and> list_all isIdentChar s \<and> \<not> list_all isDigitChar s)"

definition prereleaseIdentifier :: "string \<Rightarrow> bool" where
  "prereleaseIdentifier s = (numericIdentifier s \<or> nonNumericIdentifier s)"

definition buildIdentifier :: "string \<Rightarrow> bool" where
  "buildIdentifier s = (s \<noteq> [] \<and> list_all isIdentChar s)"

definition semverParse :: "string \<Rightarrow> SemVer option" where
  "semverParse version =
     (if length version > MAX_LENGTH then None
      else
        (let t = trim version;
             s = (if t \<noteq> [] \<and> hd t = CHR ''v'' then tl t else t);
             noBuild = takeWhile (\<lambda>c. c \<noteq> CHR ''+'') s;
             buildRest = dropWhile (\<lambda>c. c \<noteq> CHR ''+'') s;
             main = takeWhile (\<lambda>c. c \<noteq> CHR ''-'') noBuild;
             rest = dropWhile (\<lambda>c. c \<noteq> CHR ''-'') noBuild;
             pre = (if rest = [] then [] else split CHR ''.'' (tl rest))
         in case split CHR ''.'' main of
              [a, b, c] \<Rightarrow>
                (if numericIdentifier a \<and> numericIdentifier b \<and> numericIdentifier c
                    \<and> list_all prereleaseIdentifier pre
                    \<and> (buildRest = [] \<or> list_all buildIdentifier (split CHR ''.'' (tl buildRest)))
                    \<and> digitsValue a \<le> MAX_SAFE_INTEGER
                    \<and> digitsValue b \<le> MAX_SAFE_INTEGER
                    \<and> digitsValue c \<le> MAX_SAFE_INTEGER
                 then Some \<lparr> sv_major = digitsValue a, sv_minor = digitsValue b,
                             sv_patch = digitsValue c, sv_prerelease = pre \<rparr>
                 else None)
            | _ \<Rightarrow> None))"

text \<open>
  The order of two versions: the three numbers are compared in order, a version with a
  prerelease tag is below the same version without one, and two prerelease tags are
  compared identifier by identifier. Two identifiers that differ are compared as
  numbers when both are numbers, a number is below any other identifier, and two other
  identifiers are compared as strings. The numbers compared are the doubles that
  \<open>+id\<close> gives: the value of the digits rounded to 53 significant bits, ties to even.
\<close>

function doubleExponent :: "nat \<Rightarrow> nat" where
  "doubleExponent n = (if n < 2 ^ 53 then 0 else Suc (doubleExponent (n div 2)))"
  by pat_completeness auto
termination
  by (relation "measure (\<lambda>n. n)") auto

definition toDouble :: "nat \<Rightarrow> nat" where
  "toDouble n =
     (let e = doubleExponent n;
          q = n div 2 ^ e;
          r = n mod 2 ^ e
      in if 2 * r > 2 ^ e \<or> (2 * r = 2 ^ e \<and> odd q) then (q + 1) * 2 ^ e
         else q * 2 ^ e)"

fun strLt :: "string \<Rightarrow> string \<Rightarrow> bool" where
  "strLt [] [] = False"
| "strLt [] (y # ys) = True"
| "strLt (x # xs) [] = False"
| "strLt (x # xs) (y # ys) =
     ((of_char x :: nat) < of_char y \<or> (x = y \<and> strLt xs ys))"

definition identLt :: "string \<Rightarrow> string \<Rightarrow> bool" where
  "identLt a b =
     (if allDigits a \<and> allDigits b then toDouble (digitsValue a) < toDouble (digitsValue b)
      else if allDigits a then True
      else if allDigits b then False
      else strLt a b)"

fun preLt :: "string list \<Rightarrow> string list \<Rightarrow> bool" where
  "preLt [] [] = False"
| "preLt [] (b # bs) = True"
| "preLt (a # as) [] = False"
| "preLt (a # as) (b # bs) = (if a = b then preLt as bs else identLt a b)"

definition semverLt :: "SemVer \<Rightarrow> SemVer \<Rightarrow> bool" where
  "semverLt x y =
     (sv_major x < sv_major y
      \<or> (sv_major x = sv_major y
          \<and> (sv_minor x < sv_minor y
              \<or> (sv_minor x = sv_minor y
                  \<and> (sv_patch x < sv_patch y
                      \<or> (sv_patch x = sv_patch y
                          \<and> sv_prerelease x \<noteq> []
                          \<and> (sv_prerelease y = []
                              \<or> preLt (sv_prerelease x) (sv_prerelease y))))))))"

text \<open>\<open>semver.lt(a, b)\<close>: both texts are parsed, and a text that is not a version makes
  the call throw.\<close>

definition semver_lt :: "string \<Rightarrow> string \<Rightarrow> ScoutError + bool" where
  "semver_lt a b =
     (case semverParse a of
        None \<Rightarrow> Inl TypeError
      | Some x \<Rightarrow>
          (case semverParse b of
             None \<Rightarrow> Inl TypeError
           | Some y \<Rightarrow> Inr (semverLt x y)))"

text \<open>\<open>semver.valid(v)\<close>: the version in its canonical writing, without the leading
  \<open>v\<close> and without build metadata, or \<open>null\<close> for a text that is not a version.\<close>

definition semverFormat :: "SemVer \<Rightarrow> string" where
  "semverFormat x =
     showNat (sv_major x) @ ''.'' @ showNat (sv_minor x) @ ''.'' @ showNat (sv_patch x)
     @ (if sv_prerelease x = [] then [] else ''-'' @ join ''.'' (sv_prerelease x))"

definition semver_valid :: "string \<Rightarrow> string option" where
  "semver_valid v = map_option semverFormat (semverParse v)"

section \<open>The tracing engine\<close>

subsection \<open>Promises\<close>

text \<open>
  How a call ends: a promise that resolved, one that rejected, one that never settles, or
  an exception thrown before any promise was returned. The engine is followed one call at
  a time, each call run to the end of its promise chain.
\<close>

datatype 'a Outcome = Resolved 'a | Rejected ScoutError | Pending | Thrown ScoutError

text \<open>A handler given to \<open>.then\<close> or \<open>.catch\<close> that throws rejects the promise it
  produces.\<close>

fun settle :: "'a Outcome \<Rightarrow> 'a Outcome" where
  "settle (Thrown e) = Rejected e"
| "settle r = r"

fun thenP :: "'a Outcome \<times> 's \<Rightarrow> ('a \<Rightarrow> 's \<Rightarrow> 'b Outcome \<times> 's) \<Rightarrow> 'b Outcome \<times> 's" where
  "thenP (Resolved v, s) f = (case f v s of (r, s') \<Rightarrow> (settle r, s'))"
| "thenP (Rejected e, s) f = (Rejected e, s)"
| "thenP (Pending, s) f = (Pending, s)"
| "thenP (Thrown e, s) f = (Thrown e, s)"

fun catchP :: "'a Outcome \<times> 's \<Rightarrow> (ScoutError \<Rightarrow> 's \<Rightarrow> 'a Outcome \<times> 's) \<Rightarrow> 'a Outcome \<times> 's" where
  "catchP (Rejected e, s) g = (case g e s of (r, s') \<Rightarrow> (settle r, s'))"
| "catchP (Resolved v, s) g = (Resolved v, s)"
| "catchP (Pending, s) g = (Pending, s)"
| "catchP (Thrown e, s) g = (Thrown e, s)"

subsection \<open>Messages, requests, spans and the agent\<close>

text \<open>The requests of \<open>../protocol/v1/requests\<close> that the engine builds, without their
  time stamps.\<close>

datatype AgentMessage =
    V1Register string string
  | V1ApplicationEvent string
  | V1StartRequest string
  | V1FinishRequest string
  | V1TagRequest string Value string
  | V1StartSpan string string string "string option"
  | V1TagSpan string Value string string
  | V1StopSpan string string

text \<open>Modelled from the spec: \<open>ScoutRequest\<close> and \<open>ScoutSpan\<close> of \<open>./request\<close> and
  \<open>./span\<close>, as far as the engine reads them: the identity, the ignored flag, and for a
  span its operation, its request and its parent.\<close>

record ScoutRequest =
  req_id :: string
  req_ignored :: bool

record ScoutSpan =
  span_id :: string
  span_operation :: string
  span_requestId :: string
  span_parentId :: "string option"
  span_ignored :: bool

text \<open>Modelled from the spec: \<open>ExternalProcessAgent\<close> of \<open>../agents/external-process\<close>.
  The agent is an external process; what it answers is given by the fields
  \<open>startAnswer\<close> to \<open>sendAnswer\<close>, and \<open>handed\<close> lists the messages that were passed to
  \<open>send\<close> or \<open>sendAsync\<close>.\<close>

record Agent =
  handed :: "AgentMessage list"
  connected :: bool
  processStopped :: bool
  startAnswer :: "unit Outcome"
  connectAnswer :: "unit Outcome"
  registrationAnswer :: "unit Outcome"
  disconnectAnswer :: "unit Outcome"
  stopProcessAnswer :: "unit Outcome"
  sendAnswer :: "AgentMessage \<Rightarrow> unit Outcome"

definition Agent_send :: "Agent \<Rightarrow> AgentMessage \<Rightarrow> unit Outcome \<times> Agent" where
  "Agent_send a msg = (sendAnswer a msg, a\<lparr>handed := handed a @ [msg]\<rparr>)"

definition Agent_sendAsync :: "Agent \<Rightarrow> AgentMessage \<Rightarrow> unit Outcome \<times> Agent" where
  "Agent_sendAsync a msg = (sendAnswer a msg, a\<lparr>handed := handed a @ [msg]\<rparr>)"

definition Agent_connect :: "Agent \<Rightarrow> unit Outcome \<times> Agent" where
  "Agent_connect a =
     (connectAnswer a, (if connectAnswer a = Resolved () then a\<lparr>connected := True\<rparr> else a))"

definition Agent_disconnect :: "Agent \<Rightarrow> unit Outcome \<times> Agent" where
  "Agent_disconnect a =
     (disconnectAnswer a,
      (if disconnectAnswer a = Resolved () then a\<lparr>connected := False\<rparr> else a))"

definition Agent_stopProcess :: "Agent \<Rightarrow> unit Outcome \<times> Agent" where
  "Agent_stopProcess a =
     (stopProcessAnswer a,
      (if stopProcessAnswer a = Resolved () then a\<lparr>processStopped := True\<rparr> else a))"

subsection \<open>The engine's state\<close>

datatype AgentSocketType = TCP | Unix

text \<open>What the engine passes to \<open>emit\<close>: the event and, where the source passes a
  request, the identity of that request.\<close>

datatype ScoutEvent =
    Shutdown
  | RequestSent string
  | IgnoredPathDetected string
  | IgnoredRequestProcessingSkipped string

text \<open>The field \<open>agent: ExternalProcessAgent | null\<close> has no initialiser: it is
  \<open>undefined\<close> until \<open>setupAgent\<close> stores an agent, and \<open>null\<close> once \<open>shutdown\<close> has
  cleared it.\<close>

datatype AgentSlot = AgentUndefined | AgentNull | AgentPresent Agent

record CoreAgentVersion =
  raw :: string

text \<open>Modelled from the spec: \<open>CoreAgentVersion\<close> of \<open>../types\<close>, the spec's
  semantic-version wrapper with a \<open>raw\<close> string. Its constructor keeps as \<open>raw\<close> the text
  that the host gives for the argument, and throws \<open>InvalidVersion\<close> when the host gives
  none.\<close>

definition CoreAgentVersion_new :: "Host \<Rightarrow> string \<Rightarrow> ScoutError + CoreAgentVersion" where
  "CoreAgentVersion_new h v =
     (case coreAgentVersionRaw h v of
        None \<Rightarrow> Inl InvalidVersion
      | Some converted \<Rightarrow> Inr \<lparr> raw = converted \<rparr>)"

text \<open>The fields of \<open>Partial<ScoutConfiguration>\<close> that the engine reads, each absent
  (\<open>None\<close>) or of its declared type.\<close>

record ScoutConfiguration =
  cfg_name :: "string option"
  cfg_key :: "string option"
  cfg_logLevel :: "LogLevel option"
  cfg_socketPath :: "string option"
  cfg_allowShutdown :: "bool option"
  cfg_monitor :: "bool option"
  cfg_coreAgentLaunch :: "bool option"
  cfg_coreAgentVersion :: "string option"
  cfg_ignore :: "string list option"

text \<open>
  The fields of \<open>Scout\<close> that the operations below read or write. \<open>logFn\<close> tells whether
  a logging function was given, and \<open>logs\<close> lists what was passed to it; \<open>events\<close> lists
  what was passed to \<open>emit\<close>. \<open>settingUp\<close> is the stored promise of \<open>setup\<close>, by its
  outcome. \<open>statsSendingInterval\<close> tells whether the timer handle is set and
  \<open>statsTimerRunning\<close> whether the timer is still scheduled;
  \<open>uncaughtExceptionListenerFn\<close> tells whether the listener function is set and
  \<open>uncaughtExceptionListening\<close> whether it is registered on \<open>process\<close>. The
  continuation-local storage of \<open>cls-hooked\<close> is not part of the state.
\<close>

record Scout =
  config :: ScoutConfiguration
  logFn :: bool
  logs :: "LogEntry list"
  events :: "ScoutEvent list"
  binPath :: string
  coreAgentVersion :: "CoreAgentVersion option"
  agent :: AgentSlot
  settingUp :: "unit Outcome option"
  statsSendingInterval :: bool
  statsTimerRunning :: bool
  uncaughtExceptionListenerFn :: bool
  uncaughtExceptionListening :: bool

text \<open>What the collaborators outside the engine answer during one call: the downloader,
  the constructor of the agent, the probe for a listening agent, the constructor and
  \<open>startSync\<close> of a request, and the integrations.\<close>

record World =
  downloadAnswer :: "string Outcome"
  newAgent :: Agent
  agentIsRunningAnswer :: "bool Outcome"
  startRequestAnswer :: "ScoutError + ScoutRequest"
  setupIntegrationsAnswer :: "ScoutError option"

definition truthyStr :: "string option \<Rightarrow> bool" where
  "truthyStr v = (case v of None \<Rightarrow> False | Some s \<Rightarrow> s \<noteq> [])"

definition truthyBool :: "bool option \<Rightarrow> bool" where
  "truthyBool v = (case v of None \<Rightarrow> False | Some b \<Rightarrow> b)"

definition log :: "Host \<Rightarrow> string \<Rightarrow> LogLevel \<Rightarrow> Scout \<Rightarrow> Scout" where
  "log h message level s =
     (if \<not> logFn s then s
      else (case cfg_logLevel (config s) of
              None \<Rightarrow> s
            | Some configured \<Rightarrow>
                (if isIgnoredLogMessage h configured level then s
                 else s\<lparr>logs := logs s @ [(message, level)]\<rparr>)))"

definition emit :: "ScoutEvent \<Rightarrow> Scout \<Rightarrow> Scout" where
  "emit ev s = s\<lparr>events := events s @ [ev]\<rparr>"

definition getDefaultSocketFilePath :: "Host \<Rightarrow> Scout \<Rightarrow> string" where
  "getDefaultSocketFilePath h s =
     path_join [path_dirname (binPath s), DEFAULT_SOCKET_FILE_NAME]"

text \<open>The getter \<open>socketPath\<close>. Reading \<open>this.coreAgentVersion.raw\<close> while the field is
  \<open>undefined\<close> throws a \<open>TypeError\<close>.\<close>

definition socketPath :: "Host \<Rightarrow> Scout \<Rightarrow> ScoutError + string" where
  "socketPath h s =
     (let byVersion =
            (case coreAgentVersion s of
               None \<Rightarrow> Inl TypeError
             | Some v \<Rightarrow>
                 (case semver_lt (raw v) CORE_AGENT_TCP_SOCKET_MIN_VERSION of
                    Inl e \<Rightarrow> Inl e
                  | Inr True \<Rightarrow> Inr (getDefaultSocketFilePath h s)
                  | Inr False \<Rightarrow>
                      Inr (''tcp://'' @ CORE_AGENT_TCP_DEFAULT_HOST @ '':''
                           @ showInt CORE_AGENT_TCP_DEFAULT_PORT)))
      in case cfg_socketPath (config s) of
           None \<Rightarrow> byVersion
         | Some p \<Rightarrow> (if p \<noteq> [] then Inr p else byVersion))"

definition getSocketType :: "Host \<Rightarrow> Scout \<Rightarrow> ScoutError + AgentSocketType" where
  "getSocketType h s =
     (case socketPath h s of
        Inl e \<Rightarrow> Inl e
      | Inr p \<Rightarrow> Inr (if startsWith p ''tcp://'' then TCP else Unix))"

definition getSocketPath :: "Host \<Rightarrow> Scout \<Rightarrow> ScoutError + string" where
  "getSocketPath h s =
     (case getSocketType h s of
        Inl e \<Rightarrow> Inl e
      | Inr t \<Rightarrow>
          (case socketPath h s of
             Inl e \<Rightarrow> Inl e
           | Inr p \<Rightarrow> Inr (if t = TCP then p else ''unix://'' @ p)))"

fun isUndefined :: "AgentSlot \<Rightarrow> bool" where
  "isUndefined AgentUndefined = True"
| "isUndefined AgentNull = False"
| "isUndefined (AgentPresent a) = False"

fun isNull :: "AgentSlot \<Rightarrow> bool" where
  "isNull AgentUndefined = False"
| "isNull AgentNull = True"
| "isNull (AgentPresent a) = False"

definition hasAgent :: "Scout \<Rightarrow> bool" where
  "hasAgent s = (\<not> isUndefined (agent s) \<and> \<not> isNull (agent s))"

definition isShutdown :: "Scout \<Rightarrow> bool" where
  "isShutdown s = isNull (agent s)"

definition getAgent :: "Scout \<Rightarrow> AgentSlot" where
  "getAgent s = agent s"

text \<open>\<open>ignore.find(prefix => path.indexOf(prefix) === 0)\<close>.\<close>

definition findPrefix :: "string list \<Rightarrow> string \<Rightarrow> string option" where
  "findPrefix ignore path = find (\<lambda>prefix. indexOf path prefix = 0) ignore"

definition ignoresPath :: "Host \<Rightarrow> Scout \<Rightarrow> string \<Rightarrow> bool \<times> Scout" where
  "ignoresPath h s path =
     (let s1 = log h ''[scout] checking path [${path}] against ignored paths'' Debug s in
      case cfg_ignore (config s1) of
        None \<Rightarrow> (False, s1)
      | Some ignore \<Rightarrow>
          (if length ignore = 0 then (False, s1)
           else (let matchingPrefix = findPrefix ignore path;
                     s2 = (if truthyStr matchingPrefix
                           then emit (IgnoredPathDetected path)
                                  (log h ''[scout] ignoring path [${path}] matching prefix [${matchingPrefix}]''
                                     Debug s1)
                           else s1)
                 in (matchingPrefix \<noteq> None, s2))))"


subsection \<open>Sending through the agent\<close>

definition sendThroughAgent :: "Host \<Rightarrow> Scout \<Rightarrow> AgentMessage \<Rightarrow> bool \<Rightarrow> unit Outcome \<times> Scout" where
  "sendThroughAgent h s msg async =
     (if \<not> hasAgent s then
        (Rejected (Disconnected ''No agent is present, please run .setup()''),
         log h ''No agent is present, please run .setup()'' Error s)
      else (case getAgent s of
              AgentPresent a \<Rightarrow>
                (if \<not> truthyBool (cfg_monitor (config s)) then
                   (Rejected MonitoringDisabled,
                    log h ''[scout] monitoring disabled, not sending tag request'' Warn s)
                 else (case (if async then Agent_sendAsync a msg else Agent_send a msg) of
                         (r, a') \<Rightarrow> (r, s\<lparr>agent := AgentPresent a'\<rparr>)))
            | _ \<Rightarrow>
                (Rejected NoAgentPresent,
                 log h ''[scout] agent is missing, cannot send'' Warn s)))"

definition sendStartRequest :: "Host \<Rightarrow> Scout \<Rightarrow> ScoutRequest \<Rightarrow> ScoutRequest Outcome \<times> Scout" where
  "sendStartRequest h s req =
     (if req_ignored req then
        (Resolved req,
         emit (IgnoredRequestProcessingSkipped (req_id req))
           (log h (''[scout] Skipping sending StartRequest for ignored req ['' @ req_id req @ '']'')
              Warn s))
      else catchP
             (thenP (sendThroughAgent h s (V1StartRequest (req_id req)) False)
                (\<lambda>_ s'. (Resolved req, s')))
             (\<lambda>err s'. (Resolved req,
                log h (''[scout] failed to send start request request: '' @ errorText h err)
                  Error s')))"

definition sendStopRequest :: "Host \<Rightarrow> Scout \<Rightarrow> ScoutRequest \<Rightarrow> ScoutRequest Outcome \<times> Scout" where
  "sendStopRequest h s req =
     (if req_ignored req then
        (Resolved req,
         emit (IgnoredRequestProcessingSkipped (req_id req))
           (log h (''[scout] Skipping sending StopRequest for ignored req ['' @ req_id req @ '']'')
              Warn s))
      else catchP
             (thenP (sendThroughAgent h s (V1FinishRequest (req_id req)) False)
                (\<lambda>_ s'. (Resolved req, emit (RequestSent (req_id req)) s')))
             (\<lambda>err s'. (Resolved req,
                log h ''[scout] failed to send stop request request'' Error s')))"

definition sendTagRequest ::
  "Host \<Rightarrow> Scout \<Rightarrow> ScoutRequest \<Rightarrow> string \<Rightarrow> Value \<Rightarrow> unit Outcome \<times> Scout" where
  "sendTagRequest h s req name v =
     (if req_ignored req then
        (Resolved (),
         emit (IgnoredRequestProcessingSkipped (req_id req))
           (log h (''[scout] Skipping sending TagRequest for ignored req ['' @ req_id req @ '']'')
              Warn s))
      else catchP
             (thenP (sendThroughAgent h s (V1TagRequest name v (req_id req)) False)
                (\<lambda>_ s'. (Resolved (), s')))
             (\<lambda>err s'. (Resolved (), log h ''[scout] failed to send tag request'' Error s')))"

definition sendStartSpan :: "Host \<Rightarrow> Scout \<Rightarrow> ScoutSpan \<Rightarrow> ScoutSpan Outcome \<times> Scout" where
  "sendStartSpan h s span =
     (if span_ignored span then
        (Resolved span,
         emit (IgnoredRequestProcessingSkipped (span_requestId span))
           (log h (''[scout] Skipping sending StartSpan for span ['' @ span_id span
                   @ ''] of ignored request ['' @ span_requestId span @ '']'')
              Warn s))
      else catchP
             (thenP (sendThroughAgent h s
                       (V1StartSpan (span_operation span) (span_requestId span) (span_id span)
                          (span_parentId span)) False)
                (\<lambda>_ s'. (Resolved span, s')))
             (\<lambda>err s'. (Resolved span,
                log h ''[scout] failed to send start span request'' Error s')))"

definition sendTagSpan ::
  "Host \<Rightarrow> Scout \<Rightarrow> ScoutSpan \<Rightarrow> string \<Rightarrow> Value \<Rightarrow> unit Outcome \<times> Scout" where
  "sendTagSpan h s span name v =
     (if span_ignored span then
        (Resolved (),
         emit (IgnoredRequestProcessingSkipped (span_requestId span))
           (log h (''[scout] Skipping sending TagSpan for span ['' @ span_id span
                   @ ''] of ignored request ['' @ span_requestId span @ '']'')
              Warn s))
      else catchP
             (thenP (sendThroughAgent h s
                       (V1TagSpan name v (span_id span) (span_requestId span)) False)
                (\<lambda>_ s'. (Resolved (), s')))
             (\<lambda>err s'. (Resolved (),
                log h ''[scout] failed to send tag span request'' Error s')))"

definition sendStopSpan :: "Host \<Rightarrow> Scout \<Rightarrow> ScoutSpan \<Rightarrow> ScoutSpan Outcome \<times> Scout" where
  "sendStopSpan h s span =
     (if span_ignored span then
        (Resolved span,
         emit (IgnoredRequestProcessingSkipped (span_requestId span))
           (log h (''[scout] Skipping sending StartSpan for span ['' @ span_id span
                   @ ''] of ignored request ['' @ span_requestId span @ '']'')
              Warn s))
      else catchP
             (thenP (sendThroughAgent h s
                       (V1StopSpan (span_id span) (span_requestId span)) False)
                (\<lambda>_ s'. (Resolved span, s')))
             (\<lambda>err s'. (Resolved span,
                log h ''[scout] failed to send stop span request'' Error s')))"

subsection \<open>Setting up and shutting down\<close>

definition Agent_start :: "Agent \<Rightarrow> unit Outcome \<times> Agent" where
  "Agent_start a = (startAnswer a, a)"

definition Agent_setRegistrationAndMetadata :: "Agent \<Rightarrow> unit Outcome \<times> Agent" where
  "Agent_setRegistrationAndMetadata a = (registrationAnswer a, a)"

definition startSendingStatistics :: "Host \<Rightarrow> Scout \<Rightarrow> Scout" where
  "startSendingStatistics h s =
     (if statsSendingInterval s then s
      else (log h ''[scout] Starting sending of statistics...'' Info s)
             \<lparr>statsSendingInterval := True, statsTimerRunning := True\<rparr>)"

definition stopSendingStatistics :: "Host \<Rightarrow> Scout \<Rightarrow> Scout" where
  "stopSendingStatistics h s =
     (if \<not> statsSendingInterval s then s
      else (log h ''[scout] Stopping sending of statistics...'' Info s)
             \<lparr>statsTimerRunning := False\<rparr>)"

text \<open>\<open>setupAgent\<close> stores the agent; the forwarding of the agent's own events through
  the engine is not followed.\<close>

definition setupAgent :: "Scout \<Rightarrow> Agent \<Rightarrow> Agent Outcome \<times> Scout" where
  "setupAgent s a = (Resolved a, s\<lparr>agent := AgentPresent a\<rparr>)"

definition agentIsRunning :: "World \<Rightarrow> Host \<Rightarrow> Scout \<Rightarrow> string \<Rightarrow> bool Outcome \<times> Scout" where
  "agentIsRunning w h s sp =
     (case getSocketType h s of
        Inl e \<Rightarrow> (Thrown e, s)
      | Inr socketType \<Rightarrow>
          (if socketType = Unix then (agentIsRunningAnswer w, s)
           else if socketType = TCP then (agentIsRunningAnswer w, s)
           else (Rejected UnknownSocketType, s)))"

definition createAgentForExistingSocket :: "World \<Rightarrow> Host \<Rightarrow> Scout \<Rightarrow> Agent Outcome \<times> Scout" where
  "createAgentForExistingSocket w h s =
     (case socketPath h s of
        Inl e \<Rightarrow> (Thrown e, s)
      | Inr sp \<Rightarrow>
          thenP
            (thenP
               (thenP
                  (agentIsRunning w h
                     (log h (''[scout] detected existing socket @ ['' @ sp
                             @ ''], skipping agent launch'') Debug s) sp)
                  (\<lambda>exists s'.
                     if \<not> exists
                     then (Thrown (InvalidConfiguration
                                     ''socket @ path [${socketPath}] does not exist''), s')
                     else (Resolved (), s')))
               (\<lambda>_ s'. case getSocketPath h s' of
                          Inl e \<Rightarrow> (Thrown e, s')
                        | Inr _ \<Rightarrow> (Resolved (newAgent w), s')))
            (\<lambda>a s'. setupAgent s' a))"

definition downloadAndLaunchAgent :: "World \<Rightarrow> Host \<Rightarrow> Scout \<Rightarrow> Agent Outcome \<times> Scout" where
  "downloadAndLaunchAgent w h s =
     (let s1 = log h ''[scout] downloading and launching agent'' Debug s in
      case cfg_coreAgentVersion (config s1) of
        None \<Rightarrow>
          (Rejected (ExternalFailure ''No core agent version specified!''),
           log h ''No core agent version specified!'' Error s1)
      | Some v \<Rightarrow>
          (if v = [] then
             (Rejected (ExternalFailure ''No core agent version specified!''),
              log h ''No core agent version specified!'' Error s1)
           else
             (case CoreAgentVersion_new h v of
                Inl e \<Rightarrow> (Thrown e, s1)
              | Inr version \<Rightarrow>
                  thenP
                    (thenP
                       (thenP
                          (thenP
                             (thenP (downloadAnswer w, s1\<lparr>coreAgentVersion := Some version\<rparr>)
                                (\<lambda>bp s'.
                                   case socketPath h (s'\<lparr>binPath := bp\<rparr>) of
                                     Inl e \<Rightarrow> (Thrown e, s'\<lparr>binPath := bp\<rparr>)
                                   | Inr sp \<Rightarrow>
                                       (Resolved (),
                                        log h (''[scout] using socket path ['' @ sp @ '']'') Debug
                                          (s'\<lparr>binPath := bp\<rparr>))))
                             (\<lambda>_ s'. case getSocketPath h s' of
                                        Inl e \<Rightarrow> (Thrown e, s')
                                      | Inr _ \<Rightarrow> setupAgent s' (newAgent w)))
                          (\<lambda>_ s'.
                             let s2 = log h ''[scout] process options:'' Debug
                                        (log h (''[scout] starting process w/ bin @ path [''
                                                @ binPath s' @ '']'') Debug s')
                             in case agent s2 of
                                  AgentPresent a \<Rightarrow>
                                    (case Agent_start a of
                                       (r, a') \<Rightarrow> (r, s2\<lparr>agent := AgentPresent a'\<rparr>))
                                | _ \<Rightarrow> (Thrown NoAgentPresent, s2)))
                       (\<lambda>_ s'. (Resolved (), log h ''[scout] agent successfully started'' Debug s')))
                    (\<lambda>_ s'. case agent s' of
                               AgentPresent a \<Rightarrow> (Resolved a, s')
                             | _ \<Rightarrow> (Thrown NoAgentPresent, s')))))"

definition sendRegistrationRequest :: "Host \<Rightarrow> Scout \<Rightarrow> unit Outcome \<times> Scout" where
  "sendRegistrationRequest h s =
     (let name = (case cfg_name (config s) of Some n \<Rightarrow> n | None \<Rightarrow> '''');
          key = (case cfg_key (config s) of Some k \<Rightarrow> k | None \<Rightarrow> '''')
      in catchP
           (thenP
              (sendThroughAgent h
                 (log h (''[scout] registering application ['' @ name @ '']'') Debug s)
                 (V1Register name key) False)
              (\<lambda>_ s'. (Resolved (), s')))
           (\<lambda>err s'. (Resolved (),
              log h ''[scout] failed to send app registration request'' Error s')))"

definition sendAppMetadataEvent :: "Host \<Rightarrow> Scout \<Rightarrow> unit Outcome \<times> Scout" where
  "sendAppMetadataEvent h s =
     catchP
       (thenP (sendThroughAgent h s (V1ApplicationEvent ''ScoutMetadata'') False)
          (\<lambda>_ s'. (Resolved (), s')))
       (\<lambda>err s'. (Resolved (),
          log h ''[scout] failed to send start request request'' Error s'))"

text \<open>The promise chain that \<open>Scout.setup\<close> attaches to \<open>doLaunch\<close>. The step that
  records the engine as the active one of the process writes no field of the engine and
  is left out.\<close>

definition setupChain :: "World \<Rightarrow> Host \<Rightarrow> Agent Outcome \<times> Scout \<Rightarrow> unit Outcome \<times> Scout" where
  "setupChain w h doLaunch =
     thenP
      (thenP
        (thenP
          (thenP
            (thenP
              (thenP
                (thenP
                  (thenP
                    (thenP doLaunch
                       (\<lambda>_ s. case agent s of
                                 AgentPresent a \<Rightarrow>
                                   (case Agent_connect a of
                                      (r, a') \<Rightarrow> (r, s\<lparr>agent := AgentPresent a'\<rparr>))
                               | _ \<Rightarrow> (Thrown NoAgentPresent, s)))
                    (\<lambda>_ s. (Resolved (),
                        log h ''[scout] successfully connected to agent'' Debug s)))
                  (\<lambda>_ s.
                     let s1 = (if \<not> truthyStr (cfg_name (config s))
                               then log h (''[scout] '' @ [CHR 0x27] @ ''name'' @ [CHR 0x27]
                                         @ '' configuration value missing'') Warn s
                               else s);
                         s2 = (if \<not> truthyStr (cfg_key (config s1))
                               then log h (''[scout] '' @ [CHR 0x27] @ ''key'' @ [CHR 0x27]
                                         @ '' missing in configuration'') Warn s1
                               else s1)
                     in (Resolved (), s2)))
                (\<lambda>_ s. case agent s of
                          AgentPresent a \<Rightarrow>
                            (case Agent_setRegistrationAndMetadata a of
                               (r, a') \<Rightarrow> (r, s\<lparr>agent := AgentPresent a'\<rparr>))
                        | _ \<Rightarrow> (Thrown NoAgentPresent, s)))
              (\<lambda>_ s. sendRegistrationRequest h s))
            (\<lambda>_ s. sendAppMetadataEvent h s))
          (\<lambda>_ s. case setupIntegrationsAnswer w of
                    Some e \<Rightarrow> (Thrown e, s)
                  | None \<Rightarrow> (Resolved (), s)))
        (\<lambda>_ s. (Resolved (),
            s\<lparr>uncaughtExceptionListenerFn := True, uncaughtExceptionListening := True\<rparr>)))
      (\<lambda>_ s. (Resolved (), startSendingStatistics h s))"

definition setupScout :: "World \<Rightarrow> Host \<Rightarrow> Scout \<Rightarrow> unit Outcome \<times> Scout" where
  "setupScout w h s =
     (case agent s of
        AgentPresent a \<Rightarrow> (Resolved (), s)
      | _ \<Rightarrow>
          (case settingUp s of
             Some r \<Rightarrow> (r, s)
           | None \<Rightarrow>
               (let s1 = log h ''[scout] setting up scout...'' Debug s;
                    doLaunch = (if truthyBool (cfg_coreAgentLaunch (config s1))
                                then downloadAndLaunchAgent w h s1
                                else createAgentForExistingSocket w h s1)
                in case doLaunch of
                     (Thrown e, s2) \<Rightarrow> (Thrown e, s2)
                   | _ \<Rightarrow>
                       (case setupChain w h doLaunch of
                          (r, s3) \<Rightarrow> (r, s3\<lparr>settingUp := Some r\<rparr>)))))"

definition shutdown :: "Host \<Rightarrow> Scout \<Rightarrow> unit Outcome \<times> Scout" where
  "shutdown h s =
     (let s1 = (if statsSendingInterval s then stopSendingStatistics h s else s) in
      case agent s1 of
        AgentPresent a \<Rightarrow>
          (let s2 = (if uncaughtExceptionListenerFn s1
                     then s1\<lparr>uncaughtExceptionListening := False\<rparr> else s1)
           in thenP
                (thenP
                   (case Agent_disconnect a of
                      (r, a') \<Rightarrow> (r, s2\<lparr>agent := AgentPresent a'\<rparr>))
                   (\<lambda>_ s'.
                      if truthyBool (cfg_allowShutdown (config s'))
                      then (case agent s' of
                              AgentPresent a' \<Rightarrow>
                                (case Agent_stopProcess a' of
                                   (r, a'') \<Rightarrow> (r, s'\<lparr>agent := AgentPresent a''\<rparr>))
                            | _ \<Rightarrow> (Resolved (), s'))
                      else (Resolved (), s')))
                (\<lambda>_ s'. (Resolved (), emit Shutdown (s'\<lparr>agent := AgentNull\<rparr>))))
      | _ \<Rightarrow>
          (Rejected NoAgentPresent,
           log h ''[scout] shutdown called but no agent to shutdown is present'' Error s1))"

subsection \<open>Transactions\<close>

record CallbackInfo =
  info_request :: "ScoutRequest option"

text \<open>A user callback \<open>cb(done, info)\<close>: it throws, or it returns a value or a promise,
  given by its outcome. With a plain value \<open>v\<close> the outcome is \<open>Resolved v\<close>. What the
  callback does with \<open>done\<close> is not followed.\<close>

type_synonym DoneCallback = "CallbackInfo \<Rightarrow> ScoutError + Value option Outcome"

definition startRequest :: "World \<Rightarrow> Scout \<Rightarrow> ScoutRequest Outcome \<times> Scout" where
  "startRequest w s =
     (case startRequestAnswer w of
        Inl e \<Rightarrow> (Rejected e, s)
      | Inr r \<Rightarrow> (Resolved r, s))"

definition withAsyncRequestContext ::
  "World \<Rightarrow> Host \<Rightarrow> Scout \<Rightarrow> DoneCallback \<Rightarrow> Value option Outcome \<times> Scout" where
  "withAsyncRequestContext w h s cb =
     (case startRequest w (log h ''[scout] Starting request in async namespace...'' Debug s) of
        (Resolved request, s1) \<Rightarrow>
          (let s2 = log h (''[scout] Request started w/ ID ['' @ req_id request @ '']'') Debug s1
           in case cb \<lparr>info_request = Some request\<rparr> of
                Inr result \<Rightarrow> (settle result, s2)
              | Inl err \<Rightarrow>
                  (Resolved None,
                   log h (''[scout] failed to send start request: '' @ errorText h err)
                     Error s2))
      | (Rejected err, s1) \<Rightarrow>
          (case cb \<lparr>info_request = None\<rparr> of
             Inr result \<Rightarrow>
               (settle result,
                log h (''[scout] failed to send start request: '' @ errorText h err) Error s1)
           | Inl err' \<Rightarrow> (Pending, s1))
      | (r, s1) \<Rightarrow> (Pending, s1))"

definition transaction ::
  "World \<Rightarrow> Host \<Rightarrow> Scout \<Rightarrow> string \<Rightarrow> DoneCallback \<Rightarrow> Value option Outcome \<times> Scout" where
  "transaction w h s name cb =
     (let setupResult =
            setupScout w h (log h (''[scout] Starting transaction ['' @ name @ '']'') Debug s);
          ranContext = (case fst setupResult of Resolved _ \<Rightarrow> True | _ \<Rightarrow> False)
      in catchP
           (thenP setupResult (\<lambda>_ s'. withAsyncRequestContext w h s' cb))
           (\<lambda>err s'.
              let s'' = log h ''[scout] Scout setup failed: ${err}'' Error s'
              in if \<not> ranContext then withAsyncRequestContext w h s'' cb
                 else (Resolved None, s'')))"

subsection \<open>Building the engine\<close>

text \<open>The typed view of a configuration proxy: each field the engine reads, looked up
  through \<open>get\<close> when the engine is built.\<close>

definition proxyString :: "Host \<Rightarrow> ScoutConfigurationProxy \<Rightarrow> string \<Rightarrow> string option" where
  "proxyString h p prop = (case snd (get h p prop) of Inr v \<Rightarrow> stringOf h v | Inl e \<Rightarrow> None)"

definition proxyBool :: "Host \<Rightarrow> ScoutConfigurationProxy \<Rightarrow> string \<Rightarrow> bool option" where
  "proxyBool h p prop =
     (case snd (get h p prop) of Inr (Some (VBool b)) \<Rightarrow> Some b | _ \<Rightarrow> None)"

definition proxyLogLevel :: "Host \<Rightarrow> ScoutConfigurationProxy \<Rightarrow> string \<Rightarrow> LogLevel option" where
  "proxyLogLevel h p prop =
     (case snd (get h p prop) of Inr (Some (VLogLevel l)) \<Rightarrow> Some l | _ \<Rightarrow> None)"

definition proxyList :: "Host \<Rightarrow> ScoutConfigurationProxy \<Rightarrow> string \<Rightarrow> string list option" where
  "proxyList h p prop =
     (case snd (get h p prop) of Inr (Some (VList xs)) \<Rightarrow> Some xs | _ \<Rightarrow> None)"

definition buildScoutConfiguration ::
  "Host \<Rightarrow> (string \<rightharpoonup> Value) option \<Rightarrow> ScoutConfigurationProxyOptions option
     \<Rightarrow> ScoutConfiguration" where
  "buildScoutConfiguration h initialNodeConfig opts =
     (let p = ScoutConfigurationProxy_new h initialNodeConfig opts in
      \<lparr> cfg_name = proxyString h p ''name'',
        cfg_key = proxyString h p ''key'',
        cfg_logLevel = proxyLogLevel h p ''logLevel'',
        cfg_socketPath = proxyString h p ''socketPath'',
        cfg_allowShutdown = proxyBool h p ''allowShutdown'',
        cfg_monitor = proxyBool h p ''monitor'',
        cfg_coreAgentLaunch = proxyBool h p ''coreAgentLaunch'',
        cfg_coreAgentVersion = proxyString h p ''coreAgentVersion'',
        cfg_ignore = proxyList h p ''ignore'' \<rparr>)"

text \<open>\<open>if (version[0] === "v") { version = version.slice(1); }\<close>\<close>

definition stripLeadingV :: "string \<Rightarrow> string" where
  "stripLeadingV version =
     (if version \<noteq> [] \<and> hd version = CHR ''v'' then tl version else version)"

record ScoutOptions =
  so_logFn :: bool
  so_loggerLevel :: "string option"

text \<open>The constructor of \<open>Scout\<close>. The version has a leading \<open>v\<close> removed and the
  directory of the binary is named \<open>scout_apm_core-v<version>-<triple>\<close>.\<close>

definition Scout_new :: "Host \<Rightarrow> ScoutConfiguration option \<Rightarrow> ScoutOptions option \<Rightarrow> Scout" where
  "Scout_new h cfg opts =
     (let config0 = (case cfg of Some c \<Rightarrow> c | None \<Rightarrow> buildScoutConfiguration h None None);
          lf = (case opts of Some opt \<Rightarrow> so_logFn opt | None \<Rightarrow> False);
          version0 = (case cfg_coreAgentVersion config0 of
                        Some v \<Rightarrow> (if v \<noteq> [] then v else DEFAULT_CORE_AGENT_VERSION h)
                      | None \<Rightarrow> DEFAULT_CORE_AGENT_VERSION h);
          version = stripLeadingV version0;
          triple = generateTriple h;
          bp = path_join [DEFAULT_CORE_AGENT_DOWNLOAD_CACHE_DIR h,
                            ''scout_apm_core-v'' @ version @ ''-'' @ triple,
                            CORE_AGENT_BIN_FILE_NAME];
          config1 = (case opts of
                       None \<Rightarrow> config0
                     | Some opt \<Rightarrow>
                         (case so_loggerLevel opt of
                            None \<Rightarrow> config0
                          | Some lvl \<Rightarrow>
                              (if so_logFn opt \<and> lvl \<noteq> [] \<and> isLogLevel h lvl
                               then config0\<lparr>cfg_logLevel :=
                                      (case parseLogLevel h lvl of
                                         Some (VLogLevel l) \<Rightarrow> Some l
                                       | _ \<Rightarrow> None)\<rparr>
                               else config0)))
      in \<lparr> config = config1, logFn = lf, logs = [], events = [], binPath = bp,
           coreAgentVersion = None, agent = AgentUndefined, settingUp = None,
           statsSendingInterval = False, statsTimerRunning = False,
           uncaughtExceptionListenerFn = False, uncaughtExceptionListening = False \<rparr>)"

subsection \<open>Sequences of calls\<close>

datatype Op =
    OpSetup World
  | OpShutdown
  | OpTransaction World string DoneCallback
  | OpIgnoresPath string
  | OpSendStartRequest ScoutRequest
  | OpSendStopRequest ScoutRequest
  | OpSendTagRequest ScoutRequest string Value
  | OpSendStartSpan ScoutSpan
  | OpSendTagSpan ScoutSpan string Value
  | OpSendStopSpan ScoutSpan

fun step :: "Host \<Rightarrow> Scout \<Rightarrow> Op \<Rightarrow> Scout" where
  "step h s (OpSetup w) = snd (setupScout w h s)"
| "step h s OpShutdown = snd (shutdown h s)"
| "step h s (OpTransaction w name cb) = snd (transaction w h s name cb)"
| "step h s (OpIgnoresPath path) = snd (ignoresPath h s path)"
| "step h s (OpSendStartRequest req) = snd (sendStartRequest h s req)"
| "step h s (OpSendStopRequest req) = snd (sendStopRequest h s req)"
| "step h s (OpSendTagRequest req name v) = snd (sendTagRequest h s req name v)"
| "step h s (OpSendStartSpan span) = snd (sendStartSpan h s span)"
| "step h s (OpSendTagSpan span name v) = snd (sendTagSpan h s span name v)"
| "step h s (OpSendStopSpan span) = snd (sendStopSpan h s span)"

definition run :: "Host \<Rightarrow> Scout \<Rightarrow> Op list \<Rightarrow> Scout" where
  "run h s ops = foldl (step h) s ops"

section \<open>A concrete host\<close>

text \<open>Modelled from the spec: \<open>convertCamelCaseToEnvVar\<close> of \<open>./util\<close>: the property
  name converted from camelCase to UPPER_SNAKE and prefixed with \<open>SCOUT_\<close>.\<close>

definition toUpperChar :: "char \<Rightarrow> char" where
  "toUpperChar c =
     (if 97 \<le> (of_char c :: nat) \<and> (of_char c :: nat) \<le> 122
      then char_of ((of_char c :: nat) - 32) else c)"

fun upperSnake :: "string \<Rightarrow> string" where
  "upperSnake [] = []"
| "upperSnake (c # cs) =
     (if isUpperChar c then CHR ''_'' # c # upperSnake cs else toUpperChar c # upperSnake cs)"

definition camelCaseToEnvVar :: "string \<Rightarrow> string" where
  "camelCaseToEnvVar prop = ''SCOUT_'' @ upperSnake prop"

text \<open>Modelled from the spec: \<open>parseLogLevel\<close> and \<open>isLogLevel\<close> of \<open>./enum\<close>, reading the
  names of the enum \<open>{Debug, Info, Warn, Error}\<close> in lower case.\<close>

definition parseLogLevelName :: "string \<Rightarrow> Value option" where
  "parseLogLevelName v =
     (let l = toLowerCase v in
      if l = ''debug'' then Some (VLogLevel Debug)
      else if l = ''info'' then Some (VLogLevel Info)
      else if l = ''warn'' then Some (VLogLevel Warn)
      else if l = ''error'' then Some (VLogLevel Error)
      else None)"

fun logLevelName :: "LogLevel \<Rightarrow> string" where
  "logLevelName Debug = ''debug''"
| "logLevelName Info = ''info''"
| "logLevelName Warn = ''warn''"
| "logLevelName Error = ''error''"

fun uriReportingName :: "URIReportingLevel \<Rightarrow> string" where
  "uriReportingName FilteredParams = ''filtered-params''"
| "uriReportingName Path = ''path''"
| "uriReportingName NoneReporting = ''none''"

fun logLevelRank :: "LogLevel \<Rightarrow> nat" where
  "logLevelRank Debug = 0"
| "logLevelRank Info = 1"
| "logLevelRank Warn = 2"
| "logLevelRank Error = 3"

text \<open>A host for the worked examples: 64-bit glibc Linux with an empty environment. The
  constructor of \<open>CoreAgentVersion\<close> keeps what \<open>semver.valid\<close> gives: the version
  \<open>v1.2.7\<close> is kept as \<open>1.2.7\<close>, and the name \<open>latest\<close> is refused.\<close>

definition exampleHost :: Host where
  "exampleHost =
     \<lparr> systemArch = ''x64'', systemPlatform = ''linux'', isNonGlibcLinux = False,
       processEnv = Map.empty,
       convertCamelCaseToEnvVar = camelCaseToEnvVar,
       parseLogLevel = parseLogLevelName,
       logLevelValue = logLevelName,
       uriReportingValue = uriReportingName,
       isLogLevel = (\<lambda>v. parseLogLevelName v \<noteq> None),
       isIgnoredLogMessage = (\<lambda>configured level. logLevelRank level < logLevelRank configured),
       errorText = (\<lambda>e. ''error''),
       DEFAULT_CORE_AGENT_VERSION = ''v1.2.7'',
       DEFAULT_CORE_AGENT_DOWNLOAD_CACHE_DIR = ''/tmp/scout_apm_core'',
       coreAgentVersionRaw = semver_valid \<rparr>"

section \<open>Worked inputs\<close>

text \<open>The precedence example: the environment sets \<open>SCOUT_CORE_AGENT_VERSION=v2.0.0\<close> and
  the embedding program sets \<open>coreAgentVersion\<close> to \<open>v1.9.0\<close>.\<close>

definition e5_proxy :: ScoutConfigurationProxy where
  "e5_proxy =
     ScoutConfigurationProxy_new exampleHost
       (Some [''coreAgentVersion'' \<mapsto> VStr ''v1.9.0''])
       (Some \<lparr> opt_env = Some [''SCOUT_CORE_AGENT_VERSION'' \<mapsto> ''v2.0.0''], opt_logFn = False \<rparr>)"

text \<open>An embedding program that sets \<open>coreAgentTriple\<close> to the text \<open>bogus\<close> and gives
  no options, so no logging function.\<close>

definition bogus_triple_proxy :: ScoutConfigurationProxy where
  "bogus_triple_proxy =
     ScoutConfigurationProxy_new exampleHost
       (Some [''coreAgentTriple'' \<mapsto> VStr ''bogus'']) None"

text \<open>The same with a logging function among the options.\<close>

definition bogus_triple_logging_proxy :: ScoutConfigurationProxy where
  "bogus_triple_logging_proxy =
     ScoutConfigurationProxy_new exampleHost
       (Some [''coreAgentTriple'' \<mapsto> VStr ''bogus''])
       (Some \<lparr> opt_env = None, opt_logFn = True \<rparr>)"

text \<open>An agent and collaborators that answer every call with success, a configuration
  that launches the agent, and engines built from them.\<close>

definition okAgent :: Agent where
  "okAgent =
     \<lparr> handed = [], connected = False, processStopped = False,
       startAnswer = Resolved (), connectAnswer = Resolved (),
       registrationAnswer = Resolved (), disconnectAnswer = Resolved (),
       stopProcessAnswer = Resolved (), sendAnswer = (\<lambda>msg. Resolved ()) \<rparr>"

definition exampleConfig :: ScoutConfiguration where
  "exampleConfig =
     \<lparr> cfg_name = Some ''demo'', cfg_key = Some ''K'', cfg_logLevel = None,
       cfg_socketPath = None, cfg_allowShutdown = None, cfg_monitor = Some True,
       cfg_coreAgentLaunch = Some True, cfg_coreAgentVersion = Some ''v1.2.7'',
       cfg_ignore = None \<rparr>"

definition okWorld :: World where
  "okWorld =
     \<lparr> downloadAnswer =
         Resolved ''/tmp/scout_apm_core/scout_apm_core-v1.2.7-x86_64-linux-gnu/core-agent'',
       newAgent = okAgent,
       agentIsRunningAnswer = Resolved True,
       startRequestAnswer = Inr \<lparr> req_id = ''req-1'', req_ignored = False \<rparr>,
       setupIntegrationsAnswer = None \<rparr>"

definition readyScout :: Scout where
  "readyScout = snd (setupScout okWorld exampleHost (Scout_new exampleHost (Some exampleConfig) None))"


text \<open>An engine whose list of ignored prefixes holds the empty string alone.\<close>

definition emptyIgnoreScout :: Scout where
  "emptyIgnoreScout = Scout_new exampleHost (Some (exampleConfig\<lparr>cfg_ignore := Some [[]]\<rparr>)) None"

definition ignoredRequest :: ScoutRequest where
  "ignoredRequest = \<lparr> req_id = ''req-7'', req_ignored = True \<rparr>"

definition ignoredSpan :: ScoutSpan where
  "ignoredSpan =
     \<lparr> span_id = ''span-3'', span_operation = ''op'', span_requestId = ''req-7'',
       span_parentId = None, span_ignored = True \<rparr>"






text \<open>An engine just built from the example configuration: the version \<open>v1.2.7\<close> is
  configured and no socket path. The same values given to a configuration proxy.\<close>

definition freshScout :: Scout where
  "freshScout = Scout_new exampleHost (Some exampleConfig) None"


text \<open>The example configuration with a log level, and an engine built from it with a
  logging function, then set up.\<close>

definition loggingConfig :: ScoutConfiguration where
  "loggingConfig = exampleConfig\<lparr>cfg_logLevel := Some Debug\<rparr>"

definition loggingOptions :: ScoutOptions where
  "loggingOptions = \<lparr> so_logFn = True, so_loggerLevel = None \<rparr>"

definition loggingReadyScout :: Scout where
  "loggingReadyScout =
     snd (setupScout okWorld exampleHost
            (Scout_new exampleHost (Some loggingConfig) (Some loggingOptions)))"




text \<open>An agent that is launched but refuses the connection, and the engine left by the
  start that failed there.\<close>

definition failingConnectWorld :: World where
  "failingConnectWorld = okWorld\<lparr>newAgent := okAgent\<lparr>connectAnswer := Rejected ConnectionFailed\<rparr>\<rparr>"

definition connectFailedScout :: Scout where
  "connectFailedScout = snd (setupScout failingConnectWorld exampleHost freshScout)"

text \<open>Whether \<open>log\<close> passes a message of the given level on to the logging function:
  a logging function was given, a log level is configured, and the level is not
  filtered out.\<close>

definition records :: "Host \<Rightarrow> Scout \<Rightarrow> LogLevel \<Rightarrow> bool" where
  "records h s level =
     (logFn s \<and> (case cfg_logLevel (config s) of
                   None \<Rightarrow> False
                 | Some configured \<Rightarrow> \<not> isIgnoredLogMessage h configured level))"

text \<open>The calls that run \<open>Scout.setup\<close>.\<close>

fun callsSetup :: "Op \<Rightarrow> bool" where
  "callsSetup (OpSetup w) = True"
| "callsSetup (OpTransaction w name cb) = True"
| "callsSetup op = False"

text \<open>The agent slot does not hold \<open>null\<close>.\<close>

definition agentNotNull :: "Scout \<Rightarrow> bool" where
  "agentNotNull s = (\<not> isNull (agent s))"

section \<open>Properties of the configuration resolver\<close>

subsection \<open>The loop over the sources\<close>

lemma get_loop_Some:
  "snd (get_loop h p ss prop) = Inr (Some v) \<longleftrightarrow>
     (\<exists>i<length ss. snd (getConfigValue h (ss ! i) p prop) = Inr (Some v)
         \<and> (\<forall>j<i. snd (getConfigValue h (ss ! j) p prop) = Inr None))"
proof (induction ss)
  case Nil
  show ?case by simp
next
  case (Cons s ss)
  obtain l r where gv: "getConfigValue h s p prop = (l, r)" by (cases "getConfigValue h s p prop")
  show ?case
  proof (cases r)
    case (Inl e)
    have "\<not> (\<exists>i<length (s # ss). snd (getConfigValue h ((s # ss) ! i) p prop) = Inr (Some v)
         \<and> (\<forall>j<i. snd (getConfigValue h ((s # ss) ! j) p prop) = Inr None))"
    proof
      assume "\<exists>i<length (s # ss). snd (getConfigValue h ((s # ss) ! i) p prop) = Inr (Some v)
         \<and> (\<forall>j<i. snd (getConfigValue h ((s # ss) ! j) p prop) = Inr None)"
      then obtain i where i: "snd (getConfigValue h ((s # ss) ! i) p prop) = Inr (Some v)"
         "\<forall>j<i. snd (getConfigValue h ((s # ss) ! j) p prop) = Inr None" by blast
      show False
      proof (cases i)
        case 0 with i(1) gv Inl show False by simp
      next
        case (Suc k) with i(2) have "snd (getConfigValue h ((s # ss) ! 0) p prop) = Inr None" by blast
        with gv Inl show False by simp
      qed
    qed
    moreover have "snd (get_loop h p (s # ss) prop) \<noteq> Inr (Some v)" using gv Inl by simp
    ultimately show ?thesis by blast
  next
    case (Inr ov)
    show ?thesis
    proof (cases ov)
      case (Some val)
      have lhs: "snd (get_loop h p (s # ss) prop) = Inr (Some val)" using gv Inr Some by simp
      show ?thesis
      proof
        assume "snd (get_loop h p (s # ss) prop) = Inr (Some v)"
        with lhs have "val = v" by simp
        with gv Inr Some have "snd (getConfigValue h ((s # ss) ! 0) p prop) = Inr (Some v)" by simp
        then show "\<exists>i<length (s # ss). snd (getConfigValue h ((s # ss) ! i) p prop) = Inr (Some v)
         \<and> (\<forall>j<i. snd (getConfigValue h ((s # ss) ! j) p prop) = Inr None)"
          by (intro exI[of _ 0]) simp
      next
        assume "\<exists>i<length (s # ss). snd (getConfigValue h ((s # ss) ! i) p prop) = Inr (Some v)
         \<and> (\<forall>j<i. snd (getConfigValue h ((s # ss) ! j) p prop) = Inr None)"
        then obtain i where i: "snd (getConfigValue h ((s # ss) ! i) p prop) = Inr (Some v)"
         "\<forall>j<i. snd (getConfigValue h ((s # ss) ! j) p prop) = Inr None" by blast
        have "val = v"
        proof (cases i)
          case 0 with i(1) gv Inr Some show ?thesis by simp
        next
          case (Suc k) with i(2) have "snd (getConfigValue h ((s # ss) ! 0) p prop) = Inr None" by blast
          with gv Inr Some show ?thesis by simp
        qed
        with lhs show "snd (get_loop h p (s # ss) prop) = Inr (Some v)" by simp
      qed
    next
      case None
      have lhs: "snd (get_loop h p (s # ss) prop) = snd (get_loop h p ss prop)"
        using gv Inr None by (simp split: prod.splits)
      have hd: "snd (getConfigValue h s p prop) = Inr None" using gv Inr None by simp
      show ?thesis
      proof
        assume "snd (get_loop h p (s # ss) prop) = Inr (Some v)"
        with lhs Cons.IH obtain i where i: "i < length ss"
          "snd (getConfigValue h (ss ! i) p prop) = Inr (Some v)"
          "\<forall>j<i. snd (getConfigValue h (ss ! j) p prop) = Inr None" by auto
        have "\<forall>j<Suc i. snd (getConfigValue h ((s # ss) ! j) p prop) = Inr None"
          using i(3) hd by (auto simp: nth_Cons split: nat.splits)
        with i(1,2) show "\<exists>i<length (s # ss). snd (getConfigValue h ((s # ss) ! i) p prop) = Inr (Some v)
         \<and> (\<forall>j<i. snd (getConfigValue h ((s # ss) ! j) p prop) = Inr None)"
          by (intro exI[of _ "Suc i"]) simp
      next
        assume "\<exists>i<length (s # ss). snd (getConfigValue h ((s # ss) ! i) p prop) = Inr (Some v)
         \<and> (\<forall>j<i. snd (getConfigValue h ((s # ss) ! j) p prop) = Inr None)"
        then obtain i where i: "i < length (s # ss)" "snd (getConfigValue h ((s # ss) ! i) p prop) = Inr (Some v)"
         "\<forall>j<i. snd (getConfigValue h ((s # ss) ! j) p prop) = Inr None" by blast
        from i(2) hd obtain k where k: "i = Suc k" by (cases i) auto
        have "\<forall>j<k. snd (getConfigValue h (ss ! j) p prop) = Inr None"
        proof (intro allI impI)
          fix j assume "j < k"
          then have "Suc j < i" using k by simp
          with i(3) have "snd (getConfigValue h ((s # ss) ! Suc j) p prop) = Inr None" by blast
          then show "snd (getConfigValue h (ss ! j) p prop) = Inr None" by simp
        qed
        moreover have "k < length ss" "snd (getConfigValue h (ss ! k) p prop) = Inr (Some v)"
          using i(1,2) k by simp_all
        ultimately have "snd (get_loop h p ss prop) = Inr (Some v)" using Cons.IH by blast
        with lhs show "snd (get_loop h p (s # ss) prop) = Inr (Some v)" by simp
      qed
    qed
  qed
qed

lemma get_loop_None:
  "snd (get_loop h p ss prop) = Inr None \<longleftrightarrow>
     (\<forall>i<length ss. snd (getConfigValue h (ss ! i) p prop) = Inr None)"
proof (induction ss)
  case Nil
  show ?case by simp
next
  case (Cons s ss)
  obtain l r where gv: "getConfigValue h s p prop = (l, r)" by (cases "getConfigValue h s p prop")
  have all_Cons: "(\<forall>i<length (s # ss). snd (getConfigValue h ((s # ss) ! i) p prop) = Inr None)
      \<longleftrightarrow> (snd (getConfigValue h s p prop) = Inr None
           \<and> (\<forall>i<length ss. snd (getConfigValue h (ss ! i) p prop) = Inr None))"
    by (auto simp: nth_Cons split: nat.splits)
  show ?case
  proof (cases r)
    case (Inl e)
    then show ?thesis unfolding all_Cons using gv by simp
  next
    case (Inr ov)
    show ?thesis
    proof (cases ov)
      case (Some val)
      then show ?thesis unfolding all_Cons using gv Inr by simp
    next
      case None
      have "snd (get_loop h p (s # ss) prop) = snd (get_loop h p ss prop)"
        using gv Inr None by (simp split: prod.splits)
      then show ?thesis unfolding all_Cons using gv Inr None Cons.IH by simp
    qed
  qed
qed

lemma sources_new:
  "map getName (sources (ScoutConfigurationProxy_new h init opts)) = [Env, Node, Derived, Default]"
  by (simp add: ScoutConfigurationProxy_new_def)

text \<open>
  C1. For every property name, \<open>get\<close> goes through the sources in the order
  Env, Node, Derived, Default, as the constructor lists them, and returns the value of
  the earliest source whose value is not \<open>undefined\<close>; it returns \<open>undefined\<close> exactly
  when every source does.
\<close>

theorem get_first_defined:
  "map getName (sources (ScoutConfigurationProxy_new h init opts)) = [Env, Node, Derived, Default]
   \<and> (\<forall>v. snd (get h p prop) = Inr (Some v) \<longleftrightarrow>
          (\<exists>i<length (sources p).
              snd (getConfigValue h (sources p ! i) p prop) = Inr (Some v)
              \<and> (\<forall>j<i. snd (getConfigValue h (sources p ! j) p prop) = Inr None)))
   \<and> (snd (get h p prop) = Inr None \<longleftrightarrow>
          (\<forall>i<length (sources p). snd (getConfigValue h (sources p ! i) p prop) = Inr None))"
  using sources_new get_loop_Some get_loop_None by simp

lemma e5_env_value:
  "snd (getConfigValue exampleHost (sources e5_proxy ! 0) e5_proxy ''coreAgentVersion'')
     = Inr (Some (VStr ''v2.0.0''))"
  by code_simp

lemma e5_unknown_property:
  "snd (getConfigValue exampleHost (sources e5_proxy ! 0) e5_proxy ''noSuchProperty'') = Inr None"
  "snd (getConfigValue exampleHost (sources e5_proxy ! 1) e5_proxy ''noSuchProperty'') = Inr None"
  "snd (getConfigValue exampleHost (sources e5_proxy ! 2) e5_proxy ''noSuchProperty'') = Inr None"
  "snd (getConfigValue exampleHost (sources e5_proxy ! 3) e5_proxy ''noSuchProperty'') = Inr None"
  by code_simp+

lemma less_four: "i < 4 \<Longrightarrow> i = 0 \<or> i = 1 \<or> i = 2 \<or> i = (3::nat)"
  by arith

theorem get_first_defined_witness:
  "map getName (sources e5_proxy) = [Env, Node, Derived, Default]
   \<and> snd (get exampleHost e5_proxy ''coreAgentVersion'') = Inr (Some (VStr ''v2.0.0''))
   \<and> snd (get exampleHost e5_proxy ''noSuchProperty'') = Inr None"
proof -
  have order: "map getName (sources e5_proxy) = [Env, Node, Derived, Default]"
    unfolding e5_proxy_def
    using get_first_defined[of exampleHost _ _ e5_proxy "''coreAgentVersion''"] by blast
  have len: "length (sources e5_proxy) = 4"
    using arg_cong[OF order, of length] by simp
  have "\<exists>i<length (sources e5_proxy).
           snd (getConfigValue exampleHost (sources e5_proxy ! i) e5_proxy ''coreAgentVersion'')
             = Inr (Some (VStr ''v2.0.0''))
           \<and> (\<forall>j<i. snd (getConfigValue exampleHost (sources e5_proxy ! j) e5_proxy
                            ''coreAgentVersion'') = Inr None)"
    using len e5_env_value by (intro exI[of _ 0]) simp
  then have first: "snd (get exampleHost e5_proxy ''coreAgentVersion'')
      = Inr (Some (VStr ''v2.0.0''))"
    using get_first_defined[of exampleHost None None e5_proxy "''coreAgentVersion''"] by blast
  have "\<forall>i<length (sources e5_proxy).
           snd (getConfigValue exampleHost (sources e5_proxy ! i) e5_proxy ''noSuchProperty'')
             = Inr None"
    using e5_unknown_property less_four by (auto simp: len)
  then have none: "snd (get exampleHost e5_proxy ''noSuchProperty'') = Inr None"
    using get_first_defined[of exampleHost None None e5_proxy "''noSuchProperty''"] by blast
  from order first none show ?thesis by simp
qed

text \<open>
  C2. For every property and value, \<open>set\<close> writes the value to the node source and to
  nothing else: the list of sources, with the environment object in it, is as before.
  A write addressed to the environment, derived or default source fails with
  \<open>NotSupported\<close>.
\<close>

theorem set_writes_node_only:
  "set_prop p prop v = Inr (True, p\<lparr>nodeConfig := (nodeConfig p)(prop := v)\<rparr>)
   \<and> sources (p\<lparr>nodeConfig := (nodeConfig p)(prop := v)\<rparr>) = sources p
   \<and> setConfigValue (EnvConfigSource env) p prop v
       = Inl (NotSupported ''new configuration values cannot be set on the env source'')
   \<and> setConfigValue (DerivedConfigSource lf) p prop v
       = Inl (NotSupported ''new configuration values cannot be set on the derived source'')
   \<and> setConfigValue DefaultConfigSource p prop v
       = Inl (NotSupported ''new configuration values cannot be set on the default source'')"
  by (simp add: set_prop_def)

theorem set_writes_node_only_witness:
  "set_prop e5_proxy ''monitor'' (Some (VBool True))
     = Inr (True, e5_proxy\<lparr>nodeConfig := (nodeConfig e5_proxy)(''monitor'' \<mapsto> VBool True)\<rparr>)
   \<and> setConfigValue DefaultConfigSource e5_proxy ''monitor'' (Some (VBool True))
       = Inl (NotSupported ''new configuration values cannot be set on the default source'')"
  using set_writes_node_only[of e5_proxy "''monitor''" "Some (VBool True)"] by blast

subsection \<open>Derived values\<close>

lemma split_not_Nil: "split c s \<noteq> []"
  by (induction s) (auto split: list.splits)

lemma isValidTriple_VStr:
  "isValidTriple h (Some (VStr t))
     = Inr (t \<noteq> [] \<and> hd (split CHR ''-'' t) \<in> set Architecture_values
            \<and> join ''-'' (tl (split CHR ''-'' t)) \<in> set Platform_values)"
  using split_not_Nil[of "CHR ''-''" t]
  by (cases "split CHR ''-'' t") (auto simp: isValidTriple_def)

text \<open>
  C3, as the code has it. When \<open>coreAgentTriple\<close> and \<open>coreAgentVersion\<close> resolve to
  strings, the derived value of \<open>coreAgentFullName\<close> is
  \<open>scout_apm_core-{coreAgentVersion}-{coreAgentTriple}\<close> with the version as it resolved,
  a leading \<open>v\<close> included. When the triple is invalid the string is produced all the same,
  and the warning is written when the derived source was given a logging function.
\<close>

theorem coreAgentFullName_derived:
  assumes "get h p ''coreAgentTriple'' = (l1, Inr (Some (VStr triple)))"
      and "get h p ''coreAgentVersion'' = (l3, Inr (Some (VStr version)))"
  shows "DerivedConfigSource_getConfigValue h lf p ''coreAgentFullName''
         = (l1 @ (if isValidTriple h (Some (VStr triple)) = Inr False \<and> lf
                  then [(''Invalid value for core_agent_triple: ['' @ triple @ '']'', Warn)]
                  else []) @ l3,
            Inr (Some (VStr (''scout_apm_core-'' @ version @ ''-'' @ triple))))"
  using assms
  by (simp add: isValidTriple_VStr DEFAULT_CORE_AGENT_NAME_def del: get.simps)

lemma bogus_triple_resolved:
  "get exampleHost bogus_triple_logging_proxy ''coreAgentTriple'' = ([], Inr (Some (VStr ''bogus'')))"
  by code_simp

lemma bogus_version_resolved:
  "get exampleHost bogus_triple_logging_proxy ''coreAgentVersion''
     = ([], Inr (Some (VStr ''v1.2.7'')))"
  by code_simp

lemma bogus_triple_invalid: "isValidTriple exampleHost (Some (VStr ''bogus'')) = Inr False"
  by code_simp

lemma bogus_triple_sources:
  "sources bogus_triple_logging_proxy ! 2 = DerivedConfigSource True"
  by (simp add: bogus_triple_logging_proxy_def ScoutConfigurationProxy_new_def)

theorem coreAgentFullName_derived_witness:
  "getConfigValue exampleHost (sources bogus_triple_logging_proxy ! 2) bogus_triple_logging_proxy
       ''coreAgentFullName''
     = ([(''Invalid value for core_agent_triple: [bogus]'', Warn)],
        Inr (Some (VStr ''scout_apm_core-v1.2.7-bogus'')))"
  using coreAgentFullName_derived[OF bogus_triple_resolved bogus_version_resolved, of True]
    bogus_triple_invalid bogus_triple_sources
  by simp

text \<open>With the default version \<open>v1.2.7\<close>, the triple \<open>bogus\<close> and no logging function,
  the derived name keeps the \<open>v\<close> and nothing is logged.\<close>

theorem coreAgentFullName_strip_counterexample:
  "get exampleHost bogus_triple_proxy ''coreAgentVersion'' = ([], Inr (Some (VStr ''v1.2.7'')))
   \<and> get exampleHost bogus_triple_proxy ''coreAgentTriple'' = ([], Inr (Some (VStr ''bogus'')))
   \<and> isValidTriple exampleHost (Some (VStr ''bogus'')) = Inr False
   \<and> DerivedConfigSource_getConfigValue exampleHost False bogus_triple_proxy ''coreAgentFullName''
       = ([], Inr (Some (VStr ''scout_apm_core-v1.2.7-bogus'')))
   \<and> ''scout_apm_core-v1.2.7-bogus''
       \<noteq> ''scout_apm_core-'' @ stripLeadingV ''v1.2.7'' @ ''-'' @ ''bogus''"
  by code_simp

subsection \<open>Default values\<close>

text \<open>
  C4, as the code has it. The default source holds the listed initial values, with
  \<open>coreAgentPermissions\<close> the number written \<open>700\<close> in decimal: \<open>coreAgentDownload\<close> and
  \<open>coreAgentLaunch\<close> are true, \<open>coreAgentLogLevel\<close> is Info, \<open>coreAgentVersion\<close> is
  \<open>v1.2.7\<close>, \<open>downloadUrl\<close> is the release URL, \<open>uriReporting\<close> is FilteredParams,
  \<open>monitor\<close> is false and \<open>revisionSHA\<close> is the environment's \<open>HEROKU_SLUG_COMMIT\<close> or
  the empty string.
\<close>

theorem default_values:
  "DefaultConfigSource_getConfigValue h ''coreAgentDownload'' = Some (VBool True)
   \<and> DefaultConfigSource_getConfigValue h ''coreAgentLaunch'' = Some (VBool True)
   \<and> DefaultConfigSource_getConfigValue h ''coreAgentLogLevel'' = Some (VLogLevel Info)
   \<and> DefaultConfigSource_getConfigValue h ''coreAgentPermissions'' = Some (VNum 700)
   \<and> DefaultConfigSource_getConfigValue h ''coreAgentVersion'' = Some (VStr ''v1.2.7'')
   \<and> DefaultConfigSource_getConfigValue h ''downloadUrl''
       = Some (VStr ''https://s3-us-west-1.amazonaws.com/scout-public-downloads/apm_core_agent/release'')
   \<and> DefaultConfigSource_getConfigValue h ''uriReporting'' = Some (VUriReporting FilteredParams)
   \<and> DefaultConfigSource_getConfigValue h ''monitor'' = Some (VBool False)
   \<and> DefaultConfigSource_getConfigValue h ''revisionSHA''
       = Some (VStr (case processEnv h ''HEROKU_SLUG_COMMIT'' of None \<Rightarrow> '''' | Some s \<Rightarrow> s))"
  by (auto simp add: DefaultConfigSource_getConfigValue_def DEFAULT_SCOUT_CONFIGURATION_def
           split: option.splits)

theorem default_values_witness:
  "DefaultConfigSource_getConfigValue exampleHost ''coreAgentPermissions'' = Some (VNum 700)
   \<and> DefaultConfigSource_getConfigValue exampleHost ''revisionSHA'' = Some (VStr '''')"
  using default_values[of exampleHost] by (simp add: exampleHost_def)

text \<open>The octal number \<open>0700\<close> is 448; the table holds 700. The parser of
  \<open>SCOUT_CORE_AGENT_PERMISSIONS\<close> reads base ten as well.\<close>

theorem default_permissions_counterexample:
  "DefaultConfigSource_getConfigValue exampleHost ''coreAgentPermissions'' \<noteq> Some (VNum 448)"
  by (simp add: DefaultConfigSource_getConfigValue_def DEFAULT_SCOUT_CONFIGURATION_def)

lemma env_permissions_decimal:
  "EnvConfigSource_getConfigValue exampleHost [''SCOUT_CORE_AGENT_PERMISSIONS'' \<mapsto> ''700'']
     ''coreAgentPermissions'' = Some (VNum 700)"
  by code_simp

section \<open>Properties of the tracing engine\<close>

subsection \<open>Socket selection\<close>

lemma adjSlash_append:
  "adjSlash (x @ y) =
     (adjSlash x \<or> adjSlash y \<or> (x \<noteq> [] \<and> y \<noteq> [] \<and> last x = CHR ''/'' \<and> hd y = CHR ''/''))"
proof (induction x rule: adjSlash.induct)
  case (1 a b r)
  then show ?case by auto
next
  case (2 a)
  then show ?case by (cases y) auto
next
  case 3
  then show ?case by simp
qed

lemma adjSlash_Cons:
  "adjSlash (a # x) = (x \<noteq> [] \<and> ((a = CHR ''/'' \<and> hd x = CHR ''/'') \<or> adjSlash x))"
  by (cases x) auto

lemma adjSlash_free: "CHR ''/'' \<notin> set w \<Longrightarrow> \<not> adjSlash w"
  by (induction w rule: adjSlash.induct) auto

lemma split_sep_free: "w \<in> set (split c s) \<Longrightarrow> c \<notin> set w"
proof (induction s arbitrary: w)
  case Nil
  then show ?case by simp
next
  case (Cons x xs)
  show ?case
  proof (cases "x = c")
    case True
    with Cons show ?thesis by auto
  next
    case False
    obtain u us where sp: "split c xs = u # us"
      using split_not_Nil[of c xs] by (cases "split c xs") auto
    from Cons.prems False sp have "w = x # u \<or> w \<in> set us" by simp
    then show ?thesis
    proof
      assume "w = x # u"
      moreover have "c \<notin> set u" using Cons.IH[of u] sp by simp
      ultimately show ?thesis using False by simp
    next
      assume "w \<in> set us"
      then show ?thesis using Cons.IH[of w] sp by simp
    qed
  qed
qed

lemma normalizeSegments_good:
  "\<forall>w\<in>set res. goodSeg w \<Longrightarrow> \<forall>w\<in>set segs. CHR ''/'' \<notin> set w
     \<Longrightarrow> \<forall>w\<in>set (normalizeSegments aar segs res). goodSeg w"
proof (induction segs arbitrary: res)
  case Nil
  then show ?case by simp
next
  case (Cons seg segs)
  have tail: "\<forall>w\<in>set segs. CHR ''/'' \<notin> set w" using Cons.prems(2) by simp
  have bl: "\<forall>w\<in>set (butlast res). goodSeg w" using Cons.prems(1) by (auto dest: in_set_butlastD)
  have dd: "\<forall>w\<in>set (res @ [''..'']). goodSeg w" using Cons.prems(1) by (auto simp: goodSeg_def)
  have sg: "seg \<noteq> [] \<Longrightarrow> \<forall>w\<in>set (res @ [seg]). goodSeg w"
    using Cons.prems by (auto simp: goodSeg_def)
  show ?case
    using Cons.IH[OF Cons.prems(1) tail] Cons.IH[OF bl tail] Cons.IH[OF dd tail] Cons.IH[OF sg tail]
    by simp
qed

lemma goodSeg_ends:
  assumes "goodSeg w"
  shows "w \<noteq> []" "\<not> adjSlash w" "hd w \<noteq> CHR ''/''" "last w \<noteq> CHR ''/''"
proof -
  from assms show ne: "w \<noteq> []" and free: "\<not> adjSlash w"
    by (simp_all add: goodSeg_def adjSlash_free)
  from assms have nin: "CHR ''/'' \<notin> set w" by (simp add: goodSeg_def)
  from ne have "hd w \<in> set w" by (rule hd_in_set)
  with nin show "hd w \<noteq> CHR ''/''" by metis
  from ne have "last w \<in> set w" by (rule last_in_set)
  with nin show "last w \<noteq> CHR ''/''" by metis
qed

lemma join_good:
  "\<forall>w\<in>set ws. goodSeg w \<Longrightarrow>
     \<not> adjSlash (join ''/'' ws)
     \<and> (ws \<noteq> [] \<longrightarrow> join ''/'' ws \<noteq> [] \<and> hd (join ''/'' ws) \<noteq> CHR ''/''
                       \<and> last (join ''/'' ws) \<noteq> CHR ''/'')"
proof (induction "''/''" ws rule: join.induct)
  case 1
  then show ?case by simp
next
  case (2 w)
  then have "goodSeg w" by simp
  from goodSeg_ends[OF this] show ?case by simp
next
  case (3 w v ws)
  then have gw: "goodSeg w" and rest: "\<forall>u\<in>set (v # ws). goodSeg u" by simp_all
  from 3(1)[OF rest] have ih: "\<not> adjSlash (join ''/'' (v # ws))"
    "join ''/'' (v # ws) \<noteq> []" "hd (join ''/'' (v # ws)) \<noteq> CHR ''/''"
    "last (join ''/'' (v # ws)) \<noteq> CHR ''/''" by simp_all
  from goodSeg_ends[OF gw]
  have w: "w \<noteq> []" "\<not> adjSlash w" "last w \<noteq> CHR ''/''" "hd w \<noteq> CHR ''/''"
    by simp_all
  have "\<not> adjSlash (''/'' @ join ''/'' (v # ws))"
    using ih by (simp add: adjSlash_Cons)
  then have "\<not> adjSlash (w @ ''/'' @ join ''/'' (v # ws))"
    using w ih by (subst adjSlash_append) simp
  moreover have "hd (w @ ''/'' @ join ''/'' (v # ws)) \<noteq> CHR ''/''" using w by simp
  moreover have "last (w @ ''/'' @ join ''/'' (v # ws)) \<noteq> CHR ''/''" using ih by simp
  ultimately show ?case using w by simp
qed

lemma path_normalize_no_adjSlash: "\<not> adjSlash (path_normalize p)"
proof (cases "p = []")
  case True
  then show ?thesis by (simp add: path_normalize_def)
next
  case False
  define ws where "ws = normalizeSegments (hd p \<noteq> CHR ''/'') (split CHR ''/'' p) []"
  have good: "\<forall>w\<in>set ws. goodSeg w"
    unfolding ws_def by (rule normalizeSegments_good) (auto dest: split_sep_free)
  note jg = join_good[OF good]
  show ?thesis
  proof (cases "join ''/'' ws = []")
    case True
    then show ?thesis using False by (simp add: path_normalize_def ws_def Let_def)
  next
    case nonempty: False
    then have "ws \<noteq> []" by auto
    with jg have j: "\<not> adjSlash (join ''/'' ws)" "hd (join ''/'' ws) \<noteq> CHR ''/''"
      "last (join ''/'' ws) \<noteq> CHR ''/''" by simp_all
    have "\<not> adjSlash ((if hd p = CHR ''/'' then ''/'' else []) @ join ''/'' ws
                      @ (if last p = CHR ''/'' then ''/'' else []))"
      using j nonempty by (simp add: adjSlash_append)
    then show ?thesis using False nonempty by (simp add: path_normalize_def ws_def Let_def)
  qed
qed

lemma path_join_no_adjSlash: "\<not> adjSlash (path_join args)"
  by (simp add: path_join_def Let_def path_normalize_no_adjSlash)

lemma startsWith_tcp_adjSlash: "startsWith s ''tcp://'' \<Longrightarrow> adjSlash s"
proof -
  assume "startsWith s ''tcp://''"
  then have "take (length ''tcp://'') s = ''tcp://''" by (simp only: startsWith_def)
  then have "s = ''tcp://'' @ drop (length ''tcp://'') s" by (metis append_take_drop_id)
  then obtain r where "s = ''tcp://'' @ r" ..
  then show ?thesis by simp
qed

lemma path_join_not_tcp: "\<not> startsWith (path_join args) ''tcp://''"
  using startsWith_tcp_adjSlash path_join_no_adjSlash by blast

lemma log_fields [simp]:
  "agent (log h m l s) = agent s"
  "events (log h m l s) = events s"
  "config (log h m l s) = config s"
  "settingUp (log h m l s) = settingUp s"
  "coreAgentVersion (log h m l s) = coreAgentVersion s"
  "binPath (log h m l s) = binPath s"
  "logFn (log h m l s) = logFn s"
  "statsSendingInterval (log h m l s) = statsSendingInterval s"
  "uncaughtExceptionListenerFn (log h m l s) = uncaughtExceptionListenerFn s"
  by (simp_all add: log_def split: option.splits)


lemma getDefaultSocketFilePath_not_tcp:
  "\<not> startsWith (getDefaultSocketFilePath h s) ''tcp://''"
  by (simp add: getDefaultSocketFilePath_def path_join_not_tcp)

text \<open>What the promise combinators and the steps of a start leave unchanged.\<close>

lemma thenP_preserves:
  assumes "P (snd x)"
    and "\<And>v s. P s \<Longrightarrow> P (snd (f v s))"
  shows "P (snd (thenP x f))"
proof (cases x)
  case (Pair r s)
  with assms(1) have "P s" by simp
  then show ?thesis using assms(2)[of s] by (cases r) (simp_all add: Pair case_prod_beta)
qed

lemma catchP_preserves:
  assumes "P (snd x)"
    and "\<And>e s. P s \<Longrightarrow> P (snd (g e s))"
  shows "P (snd (catchP x g))"
proof (cases x)
  case (Pair r s)
  with assms(1) have "P s" by simp
  then show ?thesis using assms(2)[of s] by (cases r) (simp_all add: Pair case_prod_beta)
qed


lemma Scout_new_fields:
  "agent (Scout_new h cfg opts) = AgentUndefined"
  "coreAgentVersion (Scout_new h cfg opts) = None"
  "settingUp (Scout_new h cfg opts) = None"
  by (simp_all add: Scout_new_def Let_def)

text \<open>The socket path is read from the configuration, the version held by the engine and
  the path of the binary alone.\<close>

lemma socketPath_cong:
  assumes "config s = config s'" and "coreAgentVersion s = coreAgentVersion s'"
    and "binPath s = binPath s'"
  shows "socketPath h s = socketPath h s'"
proof -
  have g: "getDefaultSocketFilePath h s = getDefaultSocketFilePath h s'"
    using assms(3) by (simp add: getDefaultSocketFilePath_def)
  show ?thesis
    unfolding socketPath_def g assms(1) assms(2) by (rule refl)
qed

lemma getSocketPath_readable:
  "socketPath h s = Inr sp \<Longrightarrow> \<exists>p. getSocketPath h s = Inr p"
  by (simp add: getSocketPath_def getSocketType_def)

lemma socketPath_log [simp]: "socketPath h (log h m l s) = socketPath h s"
  by (rule socketPath_cong) simp_all

lemma getSocketType_log [simp]: "getSocketType h (log h m l s) = getSocketType h s"
  by (simp add: getSocketType_def)





lemma freshScout_facts:
  "cfg_socketPath (config freshScout) = None"
  "cfg_coreAgentVersion (config freshScout) = Some ''v1.2.7''"
  "coreAgentVersion freshScout = None"
  by code_simp+

lemma example_version: "CoreAgentVersion_new exampleHost ''v1.2.7'' = Inr \<lparr>raw = ''1.2.7''\<rparr>"
  by code_simp

text \<open>What "strictly below 1.3.0" is for a version that \<open>semver\<close> accepts: a smaller
  major, minor or patch number, or 1.3.0 itself with a prerelease tag.\<close>

lemma semver_min_parsed:
  "semverParse CORE_AGENT_TCP_SOCKET_MIN_VERSION
     = Some \<lparr> sv_major = 1, sv_minor = 3, sv_patch = 0, sv_prerelease = [] \<rparr>"
  by code_simp

lemma semver_lt_min_version:
  "semverParse v = Some x \<Longrightarrow>
     semver_lt v CORE_AGENT_TCP_SOCKET_MIN_VERSION
       = Inr (sv_major x < 1
              \<or> (sv_major x = 1
                  \<and> (sv_minor x < 3
                      \<or> (sv_minor x = 3 \<and> sv_patch x = 0 \<and> sv_prerelease x \<noteq> []))))"
  by (auto simp: semver_lt_def semverLt_def semver_min_parsed)

text \<open>Texts that \<open>semver\<close> refuses: a number with a leading zero, empty build
  metadata and a name that is not a version; white space around a version is
  removed.\<close>

lemma semver_refused:
  "semver_lt ''01.2.0'' ''1.3.0'' = Inl TypeError"
  "semver_lt ''1.2.7-01'' ''1.3.0'' = Inl TypeError"
  "semver_lt ''1.2.7+'' ''1.3.0'' = Inl TypeError"
  "semver_lt ''latest'' ''1.3.0'' = Inl TypeError"
  "semver_lt '' 1.2.7 '' ''1.3.0'' = Inr True"
  by code_simp+




subsection \<open>Ignored paths\<close>

lemma indexOfFrom_range: "indexOfFrom i s p = -1 \<or> int i \<le> indexOfFrom i s p"
  by (induction i s p rule: indexOfFrom.induct) auto

lemma startsWith_prefix: "startsWith s p \<longleftrightarrow> prefix p s"
  unfolding startsWith_def
  by (metis append_take_drop_id prefix_def append_eq_conv_conj)

lemma indexOf_zero_iff: "indexOf s p = 0 \<longleftrightarrow> prefix p s"
proof (cases s)
  case Nil
  then show ?thesis by (simp add: indexOf_def)
next
  case (Cons c cs)
  have "indexOfFrom (Suc 0) cs p \<noteq> 0"
    using indexOfFrom_range[of "Suc 0" cs p] by auto
  then show ?thesis
    using Cons by (simp add: indexOf_def startsWith_prefix[symmetric])
qed

lemma findPrefix_None_iff:
  "findPrefix ignore path = None \<longleftrightarrow> \<not> (\<exists>x\<in>set ignore. prefix x path)"
  by (auto simp add: findPrefix_def find_None_iff indexOf_zero_iff)

lemma ignoresPath_returns:
  "fst (ignoresPath h s path)
     \<longleftrightarrow> (\<exists>ignore. cfg_ignore (config s) = Some ignore \<and> (\<exists>x\<in>set ignore. prefix x path))"
proof (cases "cfg_ignore (config s)")
  case None
  then show ?thesis by (simp add: ignoresPath_def Let_def)
next
  case (Some ignore)
  show ?thesis
  proof (cases "ignore = []")
    case True
    with Some show ?thesis by (simp add: ignoresPath_def Let_def)
  next
    case False
    with Some have "fst (ignoresPath h s path) \<longleftrightarrow> findPrefix ignore path \<noteq> None"
      by (simp add: ignoresPath_def Let_def)
    with Some show ?thesis by (simp add: findPrefix_None_iff)
  qed
qed

lemma ignoresPath_events:
  "events (snd (ignoresPath h s path))
     = events s @ (case cfg_ignore (config s) of
                     None \<Rightarrow> []
                   | Some ignore \<Rightarrow>
                       (case findPrefix ignore path of
                          None \<Rightarrow> []
                        | Some m \<Rightarrow> if m \<noteq> [] then [IgnoredPathDetected path] else []))"
  by (auto simp: ignoresPath_def Let_def emit_def truthyStr_def findPrefix_def split: option.splits)

text \<open>
  C6 at the ignore list that holds the empty string alone, which is what the parser of
  the environment source makes of \<open>SCOUT_IGNORE=""\<close>. The empty string is a prefix of
  every path, so \<open>ignoresPath\<close> returns true for \<open>/api\<close>; the event is guarded by the
  truthiness of the prefix found, and no \<open>IgnoredPathDetected\<close> is emitted.
\<close>

theorem ignoresPath_empty_prefix_silent:
  "EnvConfigSource_getConfigValue exampleHost [''SCOUT_IGNORE'' \<mapsto> ''''] ''ignore'' = Some (VList [[]])
   \<and> cfg_ignore (config emptyIgnoreScout) = Some [[]]
   \<and> fst (ignoresPath exampleHost emptyIgnoreScout ''/api'') = True
   \<and> events (snd (ignoresPath exampleHost emptyIgnoreScout ''/api'')) = []"
  by code_simp

subsection \<open>Ignored requests and spans\<close>

text \<open>
  C7. For a request and a span whose ignored flag is set, each of \<open>sendStartRequest\<close>,
  \<open>sendStopRequest\<close>, \<open>sendTagRequest\<close>, \<open>sendStartSpan\<close>, \<open>sendTagSpan\<close> and
  \<open>sendStopSpan\<close> resolves, leaves the agent as it was (nothing is handed to it), and
  emits exactly one \<open>IgnoredRequestProcessingSkipped\<close> event.
\<close>

theorem ignored_sends_nothing:
  assumes "req_ignored req" and "span_ignored span"
  shows "fst (sendStartRequest h s req) = Resolved req
       \<and> agent (snd (sendStartRequest h s req)) = agent s
       \<and> events (snd (sendStartRequest h s req))
           = events s @ [IgnoredRequestProcessingSkipped (req_id req)]
       \<and> fst (sendStopRequest h s req) = Resolved req
       \<and> agent (snd (sendStopRequest h s req)) = agent s
       \<and> events (snd (sendStopRequest h s req))
           = events s @ [IgnoredRequestProcessingSkipped (req_id req)]
       \<and> fst (sendTagRequest h s req name v) = Resolved ()
       \<and> agent (snd (sendTagRequest h s req name v)) = agent s
       \<and> events (snd (sendTagRequest h s req name v))
           = events s @ [IgnoredRequestProcessingSkipped (req_id req)]
       \<and> fst (sendStartSpan h s span) = Resolved span
       \<and> agent (snd (sendStartSpan h s span)) = agent s
       \<and> events (snd (sendStartSpan h s span))
           = events s @ [IgnoredRequestProcessingSkipped (span_requestId span)]
       \<and> fst (sendTagSpan h s span name v) = Resolved ()
       \<and> agent (snd (sendTagSpan h s span name v)) = agent s
       \<and> events (snd (sendTagSpan h s span name v))
           = events s @ [IgnoredRequestProcessingSkipped (span_requestId span)]
       \<and> fst (sendStopSpan h s span) = Resolved span
       \<and> agent (snd (sendStopSpan h s span)) = agent s
       \<and> events (snd (sendStopSpan h s span))
           = events s @ [IgnoredRequestProcessingSkipped (span_requestId span)]"
  using assms
  by (simp add: sendStartRequest_def sendStopRequest_def sendTagRequest_def
        sendStartSpan_def sendTagSpan_def sendStopSpan_def emit_def)

lemma ignored_examples: "req_ignored ignoredRequest" "span_ignored ignoredSpan"
  by (simp_all add: ignoredRequest_def ignoredSpan_def)

lemma readyScout_events: "events readyScout = []"
  by code_simp

theorem ignored_sends_nothing_witness:
  "fst (sendStartRequest exampleHost readyScout ignoredRequest) = Resolved ignoredRequest
   \<and> agent (snd (sendStartRequest exampleHost readyScout ignoredRequest)) = agent readyScout
   \<and> events (snd (sendStartRequest exampleHost readyScout ignoredRequest))
       = [IgnoredRequestProcessingSkipped ''req-7'']
   \<and> fst (sendStopSpan exampleHost readyScout ignoredSpan) = Resolved ignoredSpan
   \<and> agent (snd (sendStopSpan exampleHost readyScout ignoredSpan)) = agent readyScout
   \<and> events (snd (sendStopSpan exampleHost readyScout ignoredSpan))
       = [IgnoredRequestProcessingSkipped ''req-7'']"
  using ignored_sends_nothing[OF ignored_examples, of exampleHost readyScout]
  by (simp add: readyScout_events ignoredRequest_def ignoredSpan_def)

subsection \<open>Shutting down twice\<close>

lemma stopSendingStatistics_fields [simp]:
  "agent (stopSendingStatistics h s) = agent s"
  "events (stopSendingStatistics h s) = events s"
  "config (stopSendingStatistics h s) = config s"
  "settingUp (stopSendingStatistics h s) = settingUp s"
  "uncaughtExceptionListenerFn (stopSendingStatistics h s) = uncaughtExceptionListenerFn s"
  by (simp_all add: stopSendingStatistics_def)

text \<open>What a call of \<open>log\<close> adds to the messages passed to the logging function.\<close>

lemma log_logs:
  "logs (log h m l s) = logs s @ (if records h s l then [(m, l)] else [])"
  by (simp add: log_def records_def split: option.splits)

lemma records_log [simp]: "records h (log h m l s) level = records h s level"
  by (simp add: records_def)

lemma stopSendingStatistics_logs:
  "logs (stopSendingStatistics h s)
     = logs s @ (if statsSendingInterval s \<and> records h s Info
                 then [(''[scout] Stopping sending of statistics...'', Info)] else [])"
  by (simp add: stopSendingStatistics_def log_logs)

lemma records_stopSendingStatistics [simp]:
  "records h (stopSendingStatistics h s) level = records h s level"
  by (simp add: records_def stopSendingStatistics_def)

lemma shutdown_absent:
  "isNull (agent s) \<or> isUndefined (agent s) \<Longrightarrow>
     fst (shutdown h s) = Rejected NoAgentPresent
     \<and> agent (snd (shutdown h s)) = agent s
     \<and> events (snd (shutdown h s)) = events s"
  by (cases "agent s"; cases "statsSendingInterval s") (simp_all add: shutdown_def Let_def)

lemma shutdown_absent_logs:
  "isNull (agent s) \<or> isUndefined (agent s) \<Longrightarrow>
     logs (snd (shutdown h s))
       = logs s
         @ (if statsSendingInterval s \<and> records h s Info
            then [(''[scout] Stopping sending of statistics...'', Info)] else [])
         @ (if records h s Error
            then [(''[scout] shutdown called but no agent to shutdown is present'', Error)]
            else [])"
  by (cases "agent s"; cases "statsSendingInterval s")
     (simp_all add: shutdown_def Let_def log_logs stopSendingStatistics_logs)

lemma shutdown_present:
  assumes "agent s = AgentPresent a"
  shows "shutdown h s =
     (let s1 = (if statsSendingInterval s then stopSendingStatistics h s else s);
          s2 = (if uncaughtExceptionListenerFn s
                then s1\<lparr>uncaughtExceptionListening := False\<rparr> else s1)
      in case disconnectAnswer a of
           Resolved u \<Rightarrow>
             (if truthyBool (cfg_allowShutdown (config s))
              then (case stopProcessAnswer a of
                      Resolved u' \<Rightarrow>
                        (Resolved (),
                         emit Shutdown
                           (s2\<lparr>agent := AgentNull\<rparr>))
                    | Rejected e \<Rightarrow>
                        (Rejected e, s2\<lparr>agent := AgentPresent (a\<lparr>connected := False\<rparr>)\<rparr>)
                    | Pending \<Rightarrow>
                        (Pending, s2\<lparr>agent := AgentPresent (a\<lparr>connected := False\<rparr>)\<rparr>)
                    | Thrown e \<Rightarrow>
                        (Rejected e, s2\<lparr>agent := AgentPresent (a\<lparr>connected := False\<rparr>)\<rparr>))
              else (Resolved (), emit Shutdown (s2\<lparr>agent := AgentNull\<rparr>)))
         | Rejected e \<Rightarrow> (Rejected e, s2\<lparr>agent := AgentPresent a\<rparr>)
         | Pending \<Rightarrow> (Pending, s2\<lparr>agent := AgentPresent a\<rparr>)
         | Thrown e \<Rightarrow> (Thrown e, s2\<lparr>agent := AgentPresent a\<rparr>))"
  using assms
  by (cases "statsSendingInterval s"; cases "uncaughtExceptionListenerFn s";
      cases "disconnectAnswer a"; cases "stopProcessAnswer a";
      cases "truthyBool (cfg_allowShutdown (config s))")
     (simp_all add: shutdown_def Let_def Agent_disconnect_def Agent_stopProcess_def)

lemma shutdown_resolved:
  "fst (shutdown h s) = Resolved () \<Longrightarrow> agent (snd (shutdown h s)) = AgentNull"
proof (cases "agent s")
  case (AgentPresent a)
  assume r: "fst (shutdown h s) = Resolved ()"
  show ?thesis
    using r
    by (cases "disconnectAnswer a"; cases "stopProcessAnswer a";
        cases "truthyBool (cfg_allowShutdown (config s))")
       (simp_all add: shutdown_present[OF AgentPresent] Let_def emit_def)
next
  case AgentUndefined
  assume "fst (shutdown h s) = Resolved ()"
  with AgentUndefined shutdown_absent[of s h] show ?thesis by simp
next
  case AgentNull
  assume "fst (shutdown h s) = Resolved ()"
  with AgentNull shutdown_absent[of s h] show ?thesis by simp
qed

text \<open>
  C8, as the code has it. A \<open>shutdown\<close> that resolves leaves \<open>isShutdown\<close> true. A
  \<open>shutdown\<close> called when \<open>isShutdown\<close> is true finds no agent: it rejects with
  \<open>NoAgentPresent\<close>, \<open>isShutdown\<close> stays true and no further event is emitted. It
  passes the message \<open>[scout] shutdown called but no agent to shutdown is present\<close> at
  level \<open>Error\<close> to \<open>log\<close>, after the message of \<open>stopSendingStatistics\<close> when the handle
  of the statistics timer is set; each of the two reaches the logging function when one
  was given and the configured log level lets its level through.
\<close>

theorem shutdown_twice:
  "(fst (shutdown h s) = Resolved () \<longrightarrow> isShutdown (snd (shutdown h s)))
   \<and> (isShutdown s \<longrightarrow>
        fst (shutdown h s) = Rejected NoAgentPresent
        \<and> isShutdown (snd (shutdown h s))
        \<and> events (snd (shutdown h s)) = events s
        \<and> logs (snd (shutdown h s))
            = logs s
              @ (if statsSendingInterval s \<and> records h s Info
                 then [(''[scout] Stopping sending of statistics...'', Info)] else [])
              @ (if records h s Error
                 then [(''[scout] shutdown called but no agent to shutdown is present'', Error)]
                 else []))"
  using shutdown_resolved[of h s] shutdown_absent[of s h] shutdown_absent_logs[of s h]
  by (auto simp: isShutdown_def)

lemma readyScout_shutdown:
  "fst (shutdown exampleHost readyScout) = Resolved ()"
  "\<not> records exampleHost (snd (shutdown exampleHost readyScout)) Error"
  "\<not> records exampleHost (snd (shutdown exampleHost readyScout)) Info"
  "logs (snd (shutdown exampleHost readyScout)) = []"
  by code_simp+

lemma loggingReadyScout_shutdown:
  "fst (shutdown exampleHost loggingReadyScout) = Resolved ()"
  "statsSendingInterval (snd (shutdown exampleHost loggingReadyScout))"
  "records exampleHost (snd (shutdown exampleHost loggingReadyScout)) Info"
  "records exampleHost (snd (shutdown exampleHost loggingReadyScout)) Error"
  by code_simp+

theorem shutdown_twice_witness:
  "isShutdown (snd (shutdown exampleHost readyScout))
   \<and> fst (shutdown exampleHost (snd (shutdown exampleHost readyScout))) = Rejected NoAgentPresent
   \<and> logs (snd (shutdown exampleHost (snd (shutdown exampleHost readyScout)))) = []
   \<and> isShutdown (snd (shutdown exampleHost loggingReadyScout))
   \<and> fst (shutdown exampleHost (snd (shutdown exampleHost loggingReadyScout)))
       = Rejected NoAgentPresent
   \<and> logs (snd (shutdown exampleHost (snd (shutdown exampleHost loggingReadyScout))))
       = logs (snd (shutdown exampleHost loggingReadyScout))
         @ [(''[scout] Stopping sending of statistics...'', Info),
            (''[scout] shutdown called but no agent to shutdown is present'', Error)]"
proof -
  have 1: "isShutdown (snd (shutdown exampleHost readyScout))"
    using shutdown_twice[of exampleHost readyScout] readyScout_shutdown(1) by blast
  have 2: "fst (shutdown exampleHost (snd (shutdown exampleHost readyScout)))
               = Rejected NoAgentPresent
      \<and> logs (snd (shutdown exampleHost (snd (shutdown exampleHost readyScout)))) = []"
    using shutdown_twice[of exampleHost "snd (shutdown exampleHost readyScout)"] 1
      readyScout_shutdown(2,3,4) by simp
  have 3: "isShutdown (snd (shutdown exampleHost loggingReadyScout))"
    using shutdown_twice[of exampleHost loggingReadyScout] loggingReadyScout_shutdown(1)
    by blast
  have 4: "fst (shutdown exampleHost (snd (shutdown exampleHost loggingReadyScout)))
               = Rejected NoAgentPresent
      \<and> logs (snd (shutdown exampleHost (snd (shutdown exampleHost loggingReadyScout))))
       = logs (snd (shutdown exampleHost loggingReadyScout))
         @ [(''[scout] Stopping sending of statistics...'', Info),
            (''[scout] shutdown called but no agent to shutdown is present'', Error)]"
    using shutdown_twice[of exampleHost "snd (shutdown exampleHost loggingReadyScout)"] 3
      loggingReadyScout_shutdown(2,3,4) by simp
  from 1 2 3 4 show ?thesis by simp
qed

theorem shutdown_twice_counterexample:
  "hasAgent readyScout
   \<and> fst (shutdown exampleHost readyScout) = Resolved ()
   \<and> isShutdown (snd (shutdown exampleHost readyScout))
   \<and> fst (shutdown exampleHost (snd (shutdown exampleHost readyScout))) \<noteq> Resolved ()"
  by code_simp

subsection \<open>Transactions after a failed start\<close>

lemma settle_settle [simp]: "settle (settle r) = settle r"
  by (cases r) simp_all



lemma withAsyncRequestContext_agent:
  "agent (snd (withAsyncRequestContext w h s cb)) = agent s"
  by (cases "startRequestAnswer w"; cases "cb \<lparr>info_request = None\<rparr>")
     (auto simp: withAsyncRequestContext_def startRequest_def Let_def split: sum.splits)







text \<open>A call that throws before it has a promise to return. A chain of \<open>.then\<close> throws
  only if its first call does, and then no handler of the chain is run.\<close>

lemma settle_not_Thrown [simp]: "settle r \<noteq> Thrown e"
  by (cases r) simp_all





















subsection \<open>The agent slot over sequences of calls\<close>

lemma agentNotNull_log [simp]: "agentNotNull (log h m l s) = agentNotNull s"
  by (simp add: agentNotNull_def)

lemma agentNotNull_emit [simp]: "agentNotNull (emit ev s) = agentNotNull s"
  by (simp add: agentNotNull_def emit_def)

lemma thenP_agentNotNull:
  assumes "agentNotNull (snd x)"
    and "\<And>v s. agentNotNull s \<Longrightarrow> agentNotNull (snd (f v s))"
  shows "agentNotNull (snd (thenP x f))"
proof (cases x)
  case (Pair r s)
  with assms(1) have "agentNotNull s" by simp
  then show ?thesis using assms(2)[of s] by (cases r) (simp_all add: Pair case_prod_beta)
qed

lemma catchP_agentNotNull:
  assumes "agentNotNull (snd x)"
    and "\<And>e s. agentNotNull s \<Longrightarrow> agentNotNull (snd (g e s))"
  shows "agentNotNull (snd (catchP x g))"
proof (cases x)
  case (Pair r s)
  with assms(1) have "agentNotNull s" by simp
  then show ?thesis using assms(2)[of s] by (cases r) (simp_all add: Pair case_prod_beta)
qed

lemma sendThroughAgent_agentNotNull:
  "agentNotNull s \<Longrightarrow> agentNotNull (snd (sendThroughAgent h s msg async))"
  by (cases "agent s")
     (auto simp: sendThroughAgent_def getAgent_def agentNotNull_def split: prod.splits)

lemma send_helpers_agentNotNull:
  assumes "agentNotNull s"
  shows "agentNotNull (snd (sendStartRequest h s req))"
    "agentNotNull (snd (sendStopRequest h s req))"
    "agentNotNull (snd (sendTagRequest h s req name v))"
    "agentNotNull (snd (sendStartSpan h s span))"
    "agentNotNull (snd (sendTagSpan h s span name v))"
    "agentNotNull (snd (sendStopSpan h s span))"
  unfolding sendStartRequest_def sendStopRequest_def sendTagRequest_def
    sendStartSpan_def sendTagSpan_def sendStopSpan_def
  using assms
  by (auto intro!: catchP_agentNotNull thenP_agentNotNull sendThroughAgent_agentNotNull)

lemma setupAgent_agentNotNull: "agentNotNull (snd (setupAgent s a))"
  by (simp add: setupAgent_def agentNotNull_def)

lemma agentIsRunning_agentNotNull:
  "agentNotNull s \<Longrightarrow> agentNotNull (snd (agentIsRunning w h s sp))"
  by (auto simp: agentIsRunning_def split: sum.splits)

lemma createAgentForExistingSocket_agentNotNull:
  "agentNotNull s \<Longrightarrow> agentNotNull (snd (createAgentForExistingSocket w h s))"
  unfolding createAgentForExistingSocket_def
  by (auto intro!: thenP_agentNotNull agentIsRunning_agentNotNull setupAgent_agentNotNull
        split: sum.splits)

lemma agentNotNull_updates [simp]:
  "agentNotNull (s\<lparr>coreAgentVersion := cv\<rparr>) = agentNotNull s"
  "agentNotNull (s\<lparr>binPath := bp\<rparr>) = agentNotNull s"
  "agentNotNull (s\<lparr>settingUp := su\<rparr>) = agentNotNull s"
  "agentNotNull (s\<lparr>agent := AgentPresent a\<rparr>)"
  "agentNotNull (s\<lparr>uncaughtExceptionListenerFn := b1, uncaughtExceptionListening := b2\<rparr>)
     = agentNotNull s"
  "agentNotNull (startSendingStatistics h s) = agentNotNull s"
  by (simp_all add: agentNotNull_def startSendingStatistics_def)

lemma downloadAndLaunchAgent_agentNotNull:
  "agentNotNull s \<Longrightarrow> agentNotNull (snd (downloadAndLaunchAgent w h s))"
  unfolding downloadAndLaunchAgent_def Let_def
  by (auto intro!: thenP_agentNotNull setupAgent_agentNotNull
        simp: Agent_start_def
        split: sum.splits option.splits AgentSlot.splits)

lemma sendRegistrationRequest_agentNotNull:
  "agentNotNull s \<Longrightarrow> agentNotNull (snd (sendRegistrationRequest h s))"
  unfolding sendRegistrationRequest_def Let_def
  by (auto intro!: catchP_agentNotNull thenP_agentNotNull sendThroughAgent_agentNotNull)

lemma sendAppMetadataEvent_agentNotNull:
  "agentNotNull s \<Longrightarrow> agentNotNull (snd (sendAppMetadataEvent h s))"
  unfolding sendAppMetadataEvent_def
  by (auto intro!: catchP_agentNotNull thenP_agentNotNull sendThroughAgent_agentNotNull)

lemma setupChain_agentNotNull:
  "agentNotNull (snd d) \<Longrightarrow> agentNotNull (snd (setupChain w h d))"
  unfolding setupChain_def Let_def
  by (auto intro!: thenP_agentNotNull sendRegistrationRequest_agentNotNull
        sendAppMetadataEvent_agentNotNull
        simp: Agent_connect_def Agent_setRegistrationAndMetadata_def
        split: option.splits AgentSlot.splits)

lemma setupScout_agentNotNull:
  "agentNotNull s \<Longrightarrow> agentNotNull (snd (setupScout w h s))"
proof -
  assume nn: "agentNotNull s"
  let ?s1 = "log h ''[scout] setting up scout...'' Debug s"
  let ?d = "if truthyBool (cfg_coreAgentLaunch (config ?s1))
            then downloadAndLaunchAgent w h ?s1 else createAgentForExistingSocket w h ?s1"
  have d: "agentNotNull (snd ?d)"
    using nn by (simp add: downloadAndLaunchAgent_agentNotNull
                   createAgentForExistingSocket_agentNotNull)
  have c: "agentNotNull (snd (setupChain w h ?d))"
    using d by (rule setupChain_agentNotNull)
  show ?thesis
    using nn d c
    by (cases "agent s"; cases "settingUp s"; cases ?d; cases "fst ?d")
       (auto simp: setupScout_def Let_def case_prod_beta)
qed

lemma withAsyncRequestContext_agentNotNull:
  "agentNotNull s \<Longrightarrow> agentNotNull (snd (withAsyncRequestContext w h s cb))"
  by (simp add: agentNotNull_def withAsyncRequestContext_agent)

lemma transaction_agentNotNull:
  "agentNotNull s \<Longrightarrow> agentNotNull (snd (transaction w h s name cb))"
  unfolding transaction_def Let_def
  by (auto intro!: catchP_agentNotNull thenP_agentNotNull setupScout_agentNotNull
        withAsyncRequestContext_agentNotNull)

lemma ignoresPath_agent: "agent (snd (ignoresPath h s path)) = agent s"
  by (auto simp: ignoresPath_def Let_def emit_def split: option.splits)

lemma step_agentNotNull:
  "op \<noteq> OpShutdown \<Longrightarrow> agentNotNull s \<Longrightarrow> agentNotNull (step h s op)"
  by (cases op)
     (simp_all add: setupScout_agentNotNull transaction_agentNotNull send_helpers_agentNotNull,
      simp add: agentNotNull_def ignoresPath_agent)

lemma shutdown_null_after:
  "agentNotNull s \<Longrightarrow> \<not> agentNotNull (snd (shutdown h s)) \<Longrightarrow> fst (shutdown h s) = Resolved ()"
proof (cases "agent s")
  case (AgentPresent a)
  assume "\<not> agentNotNull (snd (shutdown h s))"
  then show ?thesis
    by (cases "disconnectAnswer a"; cases "stopProcessAnswer a";
        cases "truthyBool (cfg_allowShutdown (config s))")
       (simp_all add: shutdown_present[OF AgentPresent] Let_def emit_def agentNotNull_def)
next
  case AgentUndefined
  assume "\<not> agentNotNull (snd (shutdown h s))"
  with AgentUndefined shutdown_absent[of s h] show ?thesis by (simp add: agentNotNull_def)
next
  case AgentNull
  assume "agentNotNull s"
  with AgentNull show ?thesis by (simp add: agentNotNull_def)
qed

lemma run_snoc: "run h s (ops @ [op]) = step h (run h s ops) op"
  by (simp add: run_def)

lemma run_null_after_shutdown:
  "agentNotNull s \<Longrightarrow> \<not> agentNotNull (run h s ops) \<Longrightarrow>
     \<exists>before after. ops = before @ OpShutdown # after
        \<and> fst (shutdown h (run h s before)) = Resolved ()"
proof (induction ops rule: rev_induct)
  case Nil
  then show ?case by (simp add: run_def)
next
  case (snoc op ops)
  show ?case
  proof (cases "agentNotNull (run h s ops)")
    case False
    with snoc obtain before after where
      "ops = before @ OpShutdown # after" "fst (shutdown h (run h s before)) = Resolved ()"
      by blast
    then have "ops @ [op] = before @ OpShutdown # (after @ [op])" by simp
    with \<open>fst (shutdown h (run h s before)) = Resolved ()\<close> show ?thesis by blast
  next
    case True
    have nn: "\<not> agentNotNull (step h (run h s ops) op)"
      using snoc.prems(2) by (simp add: run_snoc)
    with True step_agentNotNull[of op "run h s ops" h] have op: "op = OpShutdown" by blast
    with nn have "\<not> agentNotNull (snd (shutdown h (run h s ops)))" by simp
    with True have "fst (shutdown h (run h s ops)) = Resolved ()"
      by (rule shutdown_null_after)
    with op show ?thesis by blast
  qed
qed

text \<open>Once \<open>setupAgent\<close> has stored the agent, the later steps of a start keep it,
  whatever the agent answers.\<close>

lemma hasAgent_log [simp]: "hasAgent (log h m l s) = hasAgent s"
  by (simp add: hasAgent_def)

lemma hasAgent_emit [simp]: "hasAgent (emit ev s) = hasAgent s"
  by (simp add: hasAgent_def emit_def)

lemma hasAgent_updates [simp]:
  "hasAgent (s\<lparr>settingUp := su\<rparr>) = hasAgent s"
  "hasAgent (s\<lparr>agent := AgentPresent a\<rparr>)"
  "hasAgent (s\<lparr>uncaughtExceptionListenerFn := b1, uncaughtExceptionListening := b2\<rparr>)
     = hasAgent s"
  "hasAgent (startSendingStatistics h s) = hasAgent s"
  by (simp_all add: hasAgent_def startSendingStatistics_def)

lemma sendThroughAgent_hasAgent:
  "hasAgent s \<Longrightarrow> hasAgent (snd (sendThroughAgent h s msg async))"
  by (cases "agent s")
     (auto simp: sendThroughAgent_def getAgent_def hasAgent_def split: prod.splits)

lemma sendRegistrationRequest_hasAgent:
  "hasAgent s \<Longrightarrow> hasAgent (snd (sendRegistrationRequest h s))"
  unfolding sendRegistrationRequest_def Let_def
  by (auto intro!: catchP_preserves[where P = hasAgent] thenP_preserves[where P = hasAgent]
        sendThroughAgent_hasAgent)

lemma sendAppMetadataEvent_hasAgent:
  "hasAgent s \<Longrightarrow> hasAgent (snd (sendAppMetadataEvent h s))"
  unfolding sendAppMetadataEvent_def
  by (auto intro!: catchP_preserves[where P = hasAgent] thenP_preserves[where P = hasAgent]
        sendThroughAgent_hasAgent)

lemma setupChain_hasAgent:
  "hasAgent (snd d) \<Longrightarrow> hasAgent (snd (setupChain w h d))"
  unfolding setupChain_def Let_def
  by (auto intro!: thenP_preserves[where P = hasAgent] sendRegistrationRequest_hasAgent
        sendAppMetadataEvent_hasAgent
        simp: Agent_connect_def Agent_setRegistrationAndMetadata_def
        split: option.splits AgentSlot.splits)

lemma downloadAndLaunchAgent_stores_agent:
  assumes "cfg_coreAgentVersion (config s) = Some v" and "v \<noteq> []"
    and "CoreAgentVersion_new h v = Inr version"
    and "downloadAnswer w = Resolved bp"
    and "socketPath h (s\<lparr>coreAgentVersion := Some version, binPath := bp\<rparr>) = Inr sp"
  shows "hasAgent (snd (downloadAndLaunchAgent w h s))"
proof -
  let ?s2 = "(log h ''[scout] downloading and launching agent'' Debug s)
               \<lparr>coreAgentVersion := Some version\<rparr>"
  let ?s3 = "log h (''[scout] using socket path ['' @ sp @ '']'') Debug (?s2\<lparr>binPath := bp\<rparr>)"
  have sp2: "socketPath h (?s2\<lparr>binPath := bp\<rparr>) = Inr sp"
    using assms(5)
      socketPath_cong[of "?s2\<lparr>binPath := bp\<rparr>"
        "s\<lparr>coreAgentVersion := Some version, binPath := bp\<rparr>" h]
    by simp
  have sp3: "socketPath h ?s3 = Inr sp"
    using sp2 socketPath_cong[of ?s3 "?s2\<lparr>binPath := bp\<rparr>" h] by simp
  obtain p where gsp: "getSocketPath h ?s3 = Inr p"
    using getSocketPath_readable[OF sp3] by blast
  show ?thesis
    unfolding downloadAndLaunchAgent_def Let_def
    using assms(1,2,3,4) sp2 gsp
    by (auto intro!: thenP_preserves[where P = hasAgent]
          simp: setupAgent_def Agent_start_def
          split: AgentSlot.splits prod.splits)
qed

lemma setupScout_stores_agent:
  assumes "\<not> hasAgent s" and "settingUp s = None"
    and "truthyBool (cfg_coreAgentLaunch (config s))"
    and "cfg_coreAgentVersion (config s) = Some v" and "v \<noteq> []"
    and "CoreAgentVersion_new h v = Inr version"
    and "downloadAnswer w = Resolved bp"
    and "socketPath h (s\<lparr>coreAgentVersion := Some version, binPath := bp\<rparr>) = Inr sp"
  shows "hasAgent (snd (setupScout w h s))"
proof -
  let ?s1 = "log h ''[scout] setting up scout...'' Debug s"
  let ?d = "downloadAndLaunchAgent w h ?s1"
  have "socketPath h (?s1\<lparr>coreAgentVersion := Some version, binPath := bp\<rparr>) = Inr sp"
    using assms(8)
      socketPath_cong[of "?s1\<lparr>coreAgentVersion := Some version, binPath := bp\<rparr>"
        "s\<lparr>coreAgentVersion := Some version, binPath := bp\<rparr>" h]
    by simp
  then have d: "hasAgent (snd ?d)"
    using assms(4,5,6,7) by (intro downloadAndLaunchAgent_stores_agent[where v = v]) simp_all
  then have c: "hasAgent (snd (setupChain w h ?d))"
    by (rule setupChain_hasAgent)
  show ?thesis
    using assms(1,2,3) d c
    by (cases "agent s"; cases ?d; cases "fst ?d")
       (auto simp: setupScout_def Let_def case_prod_beta hasAgent_def)
qed

text \<open>The calls that do not run \<open>Scout.setup\<close> leave the agent slot \<open>undefined\<close>.\<close>

lemma step_keeps_undefined:
  "\<not> callsSetup op \<Longrightarrow> agent s = AgentUndefined \<Longrightarrow> agent (step h s op) = AgentUndefined"
  using shutdown_absent[of s h]
  by (cases op)
     (auto simp: ignoresPath_agent sendStartRequest_def sendStopRequest_def sendTagRequest_def
        sendStartSpan_def sendTagSpan_def sendStopSpan_def sendThroughAgent_def hasAgent_def
        emit_def)

lemma run_keeps_undefined:
  "\<forall>op \<in> set ops. \<not> callsSetup op \<Longrightarrow> agent s = AgentUndefined \<Longrightarrow>
     agent (run h s ops) = AgentUndefined"
proof (induction ops rule: rev_induct)
  case Nil
  then show ?case by (simp add: run_def)
next
  case (snoc op ops)
  then show ?case by (simp add: run_snoc step_keeps_undefined)
qed

text \<open>
  C10, as the code has it. A freshly built engine has no agent and is not shut down:
  \<open>hasAgent\<close> and \<open>isShutdown\<close> are both false, so the one is not the negation of the
  other, and both stay false as long as no call runs \<open>Scout.setup\<close>. \<open>hasAgent\<close> does
  not wait for \<open>Scout.setup\<close> to complete: when an engine with no agent and no stored
  promise is to launch the agent, the constructor of \<open>CoreAgentVersion\<close> accepts the
  configured version, the download resolves and the socket path can be read,
  \<open>setupAgent\<close> stores the agent and \<open>hasAgent\<close> is true after \<open>Scout.setup\<close>, whatever
  the agent answers to \<open>start\<close>, \<open>connect\<close> and the registration, so also when
  \<open>Scout.setup\<close> rejects. After any sequence of calls, \<open>isShutdown\<close> is true only if the
  sequence contains a \<open>shutdown\<close> that resolved, which is the call that clears the agent.
\<close>

theorem isShutdown_only_after_shutdown:
  "\<not> hasAgent (Scout_new h cfg opts)
   \<and> \<not> isShutdown (Scout_new h cfg opts)
   \<and> ((\<forall>op \<in> set quiet. \<not> callsSetup op) \<longrightarrow>
        \<not> hasAgent (run h (Scout_new h cfg opts) quiet)
        \<and> \<not> isShutdown (run h (Scout_new h cfg opts) quiet))
   \<and> (\<not> hasAgent s \<and> settingUp s = None
       \<and> truthyBool (cfg_coreAgentLaunch (config s))
       \<and> cfg_coreAgentVersion (config s) = Some v \<and> v \<noteq> []
       \<and> CoreAgentVersion_new h v = Inr version
       \<and> downloadAnswer w = Resolved bp
       \<and> socketPath h (s\<lparr>coreAgentVersion := Some version, binPath := bp\<rparr>) = Inr sp \<longrightarrow>
        hasAgent (snd (setupScout w h s)))
   \<and> (isShutdown (run h (Scout_new h cfg opts) ops) \<longrightarrow>
        (\<exists>before after. ops = before @ OpShutdown # after
           \<and> fst (shutdown h (run h (Scout_new h cfg opts) before)) = Resolved ()))"
proof (intro conjI impI)
  show "\<not> hasAgent (Scout_new h cfg opts)" "\<not> isShutdown (Scout_new h cfg opts)"
    by (simp_all add: hasAgent_def isShutdown_def Scout_new_fields)
next
  assume "\<forall>op \<in> set quiet. \<not> callsSetup op"
  then have "agent (run h (Scout_new h cfg opts) quiet) = AgentUndefined"
    by (simp add: run_keeps_undefined Scout_new_fields)
  then show "\<not> hasAgent (run h (Scout_new h cfg opts) quiet)"
    "\<not> isShutdown (run h (Scout_new h cfg opts) quiet)"
    by (simp_all add: hasAgent_def isShutdown_def)
next
  assume "\<not> hasAgent s \<and> settingUp s = None
       \<and> truthyBool (cfg_coreAgentLaunch (config s))
       \<and> cfg_coreAgentVersion (config s) = Some v \<and> v \<noteq> []
       \<and> CoreAgentVersion_new h v = Inr version
       \<and> downloadAnswer w = Resolved bp
       \<and> socketPath h (s\<lparr>coreAgentVersion := Some version, binPath := bp\<rparr>) = Inr sp"
  then show "hasAgent (snd (setupScout w h s))"
    using setupScout_stores_agent[where s = s and v = v and version = version and w = w
        and bp = bp and h = h and sp = sp]
    by blast
next
  assume "isShutdown (run h (Scout_new h cfg opts) ops)"
  then show "\<exists>before after. ops = before @ OpShutdown # after
           \<and> fst (shutdown h (run h (Scout_new h cfg opts) before)) = Resolved ()"
    using run_null_after_shutdown[of "Scout_new h cfg opts" h ops]
    by (simp add: isShutdown_def agentNotNull_def Scout_new_fields)
qed

lemma setup_then_shutdown:
  "isShutdown (run exampleHost (Scout_new exampleHost (Some exampleConfig) None)
                 [OpSetup okWorld, OpShutdown])"
  by code_simp

lemma quiet_calls:
  "\<forall>op \<in> set [OpShutdown, OpIgnoresPath ''/api'', OpSendStartRequest ignoredRequest].
     \<not> callsSetup op"
  by simp

lemma failing_connect_facts:
  "\<not> hasAgent freshScout"
  "settingUp freshScout = None"
  "truthyBool (cfg_coreAgentLaunch (config freshScout))"
  "downloadAnswer failingConnectWorld
     = Resolved ''/tmp/scout_apm_core/scout_apm_core-v1.2.7-x86_64-linux-gnu/core-agent''"
  "socketPath exampleHost
     (freshScout\<lparr>coreAgentVersion := Some \<lparr>raw = ''1.2.7''\<rparr>,
        binPath := ''/tmp/scout_apm_core/scout_apm_core-v1.2.7-x86_64-linux-gnu/core-agent''\<rparr>)
     = Inr ''/tmp/scout_apm_core/scout_apm_core-v1.2.7-x86_64-linux-gnu/core-agent.sock''"
  "fst (setupScout failingConnectWorld exampleHost freshScout) = Rejected ConnectionFailed"
  by code_simp+

theorem isShutdown_only_after_shutdown_witness:
  "\<not> hasAgent freshScout
   \<and> \<not> isShutdown freshScout
   \<and> \<not> hasAgent (run exampleHost freshScout
                    [OpShutdown, OpIgnoresPath ''/api'', OpSendStartRequest ignoredRequest])
   \<and> \<not> isShutdown (run exampleHost freshScout
                    [OpShutdown, OpIgnoresPath ''/api'', OpSendStartRequest ignoredRequest])
   \<and> fst (setupScout failingConnectWorld exampleHost freshScout) = Rejected ConnectionFailed
   \<and> hasAgent (snd (setupScout failingConnectWorld exampleHost freshScout))
   \<and> isShutdown (run exampleHost freshScout [OpSetup okWorld, OpShutdown])
   \<and> (\<exists>before after. [OpSetup okWorld, OpShutdown] = before @ OpShutdown # after
         \<and> fst (shutdown exampleHost (run exampleHost freshScout before)) = Resolved ())"
proof -
  note t = isShutdown_only_after_shutdown[of exampleHost "Some exampleConfig" None
          "[OpShutdown, OpIgnoresPath ''/api'', OpSendStartRequest ignoredRequest]"
          freshScout "''v1.2.7''" "\<lparr>raw = ''1.2.7''\<rparr>" failingConnectWorld
          "''/tmp/scout_apm_core/scout_apm_core-v1.2.7-x86_64-linux-gnu/core-agent''"
          "''/tmp/scout_apm_core/scout_apm_core-v1.2.7-x86_64-linux-gnu/core-agent.sock''"
          "[OpSetup okWorld, OpShutdown]", folded freshScout_def]
  have 1: "\<not> hasAgent freshScout" "\<not> isShutdown freshScout"
    using t by blast+
  have 2: "\<not> hasAgent (run exampleHost freshScout
                    [OpShutdown, OpIgnoresPath ''/api'', OpSendStartRequest ignoredRequest])"
    "\<not> isShutdown (run exampleHost freshScout
                    [OpShutdown, OpIgnoresPath ''/api'', OpSendStartRequest ignoredRequest])"
    using t quiet_calls by blast+
  have 3: "hasAgent (snd (setupScout failingConnectWorld exampleHost freshScout))"
    using t failing_connect_facts(1-5) freshScout_facts(2) example_version by blast
  have 4: "\<exists>before after. [OpSetup okWorld, OpShutdown] = before @ OpShutdown # after
         \<and> fst (shutdown exampleHost (run exampleHost freshScout before)) = Resolved ()"
    using t setup_then_shutdown[folded freshScout_def] by blast
  from 1 2 3 4 failing_connect_facts(6) setup_then_shutdown[folded freshScout_def]
  show ?thesis by simp
qed

text \<open>Where the code leaves the spec's rule for \<open>hasAgent\<close>. The agent is launched and
  refuses the connection: \<open>Scout.setup\<close> rejects, so no \<open>Scout.setup\<close> has completed,
  and \<open>hasAgent\<close> is true.\<close>

theorem hasAgent_before_setup_completes_counterexample:
  "\<not> hasAgent freshScout
   \<and> fst (setupScout failingConnectWorld exampleHost freshScout) = Rejected ConnectionFailed
   \<and> settingUp connectFailedScout = Some (Rejected ConnectionFailed)
   \<and> hasAgent connectFailedScout
   \<and> \<not> isShutdown connectFailedScout"
  by code_simp

end
